theory Spec2Isabelle
  imports Main
begin

section \<open>Exceptions and Python primitives\<close>

text \<open>
  Exceptions of the Python source are values. Every \<open>raise\<close>, failed \<open>assert\<close>,
  out-of-range index, missing dictionary key and division by zero of the modelled functions
  is an \<open>Inl\<close> result. \<open>RaisedFrom x e\<close> is the exception \<open>x\<close> raised by
  \<open>raise x from e\<close>: the new exception together with the original one it is chained to.
\<close>

datatype exn =
    RuntimeError string
  | NotImplementedError string
  | AssertionError string
  | IndexError
  | KeyError string
  | ZeroDivisionError
  | ValueError string
  | TypeError string
  | AttributeError string
  | RaisedFrom exn exn

definition bindE :: "exn + 'a \<Rightarrow> ('a \<Rightarrow> exn + 'b) \<Rightarrow> exn + 'b" where
  "bindE m f = (case m of Inl e \<Rightarrow> Inl e | Inr x \<Rightarrow> f x)"

text \<open>\<open>xs[i]\<close> for a non-negative literal index \<open>i\<close>.\<close>

definition idx :: "'a list \<Rightarrow> nat \<Rightarrow> exn + 'a" where
  "idx xs i = (if i < length xs then Inr (xs ! i) else Inl IndexError)"

text \<open>\<open>a % b\<close> on Python integers: the sign follows the divisor, as \<open>mod\<close> on \<open>int\<close>.\<close>

definition py_mod :: "int \<Rightarrow> int \<Rightarrow> exn + int" where
  "py_mod a b = (if b = 0 then Inl ZeroDivisionError else Inr (a mod b))"

text \<open>\<open>a // b\<close> on Python integers: floor division, as \<open>div\<close> on \<open>int\<close>.\<close>

definition py_floordiv :: "int \<Rightarrow> int \<Rightarrow> exn + int" where
  "py_floordiv a b = (if b = 0 then Inl ZeroDivisionError else Inr (a div b))"

text \<open>
  \<open>xs[start:stop]\<close> with optional bounds: a negative bound counts from the end, and every
  bound is clamped to the list. Note that \<open>-0\<close> is \<open>0\<close>, so \<open>xs[-d:]\<close> with \<open>d = 0\<close>
  is the whole list and \<open>xs[:-d]\<close> with \<open>d = 0\<close> is empty.
\<close>

definition slice_bound :: "int \<Rightarrow> int \<Rightarrow> nat" where
  "slice_bound n i = nat (if i < 0 then max (n + i) 0 else min i n)"

definition py_slice :: "int option \<Rightarrow> int option \<Rightarrow> 'a list \<Rightarrow> 'a list" where
  "py_slice start stop xs =
     (let n = int (length xs);
          s = (case start of None \<Rightarrow> 0 | Some i \<Rightarrow> slice_bound n i);
          e = (case stop of None \<Rightarrow> length xs | Some j \<Rightarrow> slice_bound n j)
      in take (e - s) (drop s xs))"

section \<open>Tensor-parallel convolution (\<open>tp_conv.py\<close>)\<close>

subsection \<open>Precondition check\<close>

text \<open>\<open>_requires_data_exchange(padding)\<close>.\<close>

definition requires_data_exchange :: "int list \<Rightarrow> exn + bool" where
  "requires_data_exchange padding = bindE (idx padding 1) (\<lambda>p. Inr (p \<noteq> 0))"

definition msg_dilation :: string where
  "msg_dilation = ''Dilation must be 1 for tensor parallel convolution.''"

definition msg_stride :: string where
  "msg_stride = ''Stride must be 1 when there is padding for tensor parallel convolution.''"

definition msg_kernel :: string where
  "msg_kernel = ''kernel_size[3] // 2 should be less than or equal to input_size[3] for tensor parallel convolution.''"

definition msg_divisible :: string where
  "msg_divisible = ''It requires that input_size[3] is divisible by stride[1] and stride[1] equals kernel_size[3] when there is padding for tensor parallel convolution.''"

text \<open>
  \<open>_is_supported(input_size, kernel_size, stride, padding, dilation)\<close>. The operands are
  read in the order Python evaluates them; the \<open>and\<close> of the last test does not read
  \<open>kernel_size[3]\<close> when the remainder is non-zero.
\<close>

definition is_supported ::
  "int list \<Rightarrow> int list \<Rightarrow> int list \<Rightarrow> int list \<Rightarrow> int list \<Rightarrow> exn + bool" where
  "is_supported input_size kernel_size stride padding dilation =
     bindE (idx dilation 1) (\<lambda>dl.
     if dl \<noteq> 1 then Inl (RuntimeError msg_dilation)
     else bindE (idx padding 1) (\<lambda>p.
       if p \<noteq> 0 then
         bindE (idx stride 1) (\<lambda>s.
         if s \<noteq> 1 then Inl (RuntimeError msg_stride)
         else bindE (idx kernel_size 3) (\<lambda>k.
              bindE (idx input_size 3) (\<lambda>i.
              if k div 2 > i then Inl (RuntimeError msg_kernel) else Inr True)))
       else
         bindE (idx input_size 3) (\<lambda>i.
         bindE (idx stride 1) (\<lambda>s.
         bindE (py_mod i s) (\<lambda>m.
         if m = 0 then
           bindE (idx kernel_size 3) (\<lambda>k.
           if s = k then Inr True else Inl (RuntimeError msg_divisible))
         else Inl (RuntimeError msg_divisible))))))"

subsection \<open>Operators, tensors and point-to-point requests\<close>

text \<open>
  The signature of an operator (\<open>torch._C.FunctionSchema\<close>): its base name, its overload
  name and its formal arguments with their \<open>is_out\<close> flags.
\<close>

record Argument =
  arg_name :: string
  is_out :: bool

record FunctionSchema =
  name :: string
  overload_name :: string
  arguments :: "Argument list"

text \<open>
  An operator overload (\<open>torch._ops.OpOverload\<close>): \<open>op_key\<close> is \<open>str(op_call)\<close>, which
  identifies the overload, \<open>op_sig\<close> is \<open>op_call._schema\<close>, and \<open>op_run\<close> is the call
  of the operator on positional and keyword arguments. The operators themselves are external
  to the three modelled files, so \<open>op_run\<close> is a parameter of everything below.
\<close>

record ('x, 'k, 'r) OpOverload =
  op_key :: string
  op_sig :: FunctionSchema
  op_run :: "'x \<Rightarrow> 'k \<Rightarrow> exn + 'r"

text \<open>
  A local tensor of the convolution path is four-dimensional (batch, channel, height, width):
  a nested list, the innermost lists being the rows along the last (width) axis. \<open>shape\<close>
  reads the sizes off the first row; on a tensor with no rows the inner sizes read 0.
\<close>

type_synonym 'a tensor = "'a list list list list"

definition first_of :: "'b list list \<Rightarrow> 'b list" where
  "first_of xs = (case xs of [] \<Rightarrow> [] | x # _ \<Rightarrow> x)"

definition shape :: "'a tensor \<Rightarrow> int list" where
  "shape t = [int (length t), int (length (first_of t)),
              int (length (first_of (first_of t))),
              int (length (first_of (first_of (first_of t))))]"

text \<open>\<open>t[:, :, :, start:stop]\<close>.\<close>

definition slice_last :: "int option \<Rightarrow> int option \<Rightarrow> 'a tensor \<Rightarrow> 'a tensor" where
  "slice_last start stop t = map (map (map (py_slice start stop))) t"

text \<open>\<open>torch.zeros_like(t)\<close>.\<close>

definition zeros_like :: "('a::zero) tensor \<Rightarrow> 'a tensor" where
  "zeros_like t = map (map (map (map (\<lambda>_. 0)))) t"

text \<open>
  \<open>torch.cat(ts, dim=-1)\<close>: the tensors must agree in the three leading sizes, or torch
  raises a \<open>RuntimeError\<close>.
\<close>

definition msg_cat :: string where
  "msg_cat = ''Sizes of tensors must match except in dimension 3''"

definition cat2 :: "'a tensor \<Rightarrow> 'a tensor \<Rightarrow> exn + 'a tensor" where
  "cat2 a b =
     (if map (map length) a = map (map length) b
      then Inr (map2 (map2 (map2 (@))) a b)
      else Inl (RuntimeError msg_cat))"

fun cat_last :: "'a tensor list \<Rightarrow> exn + 'a tensor" where
  "cat_last [] = Inl (RuntimeError ''torch.cat(): expected a non-empty list of Tensors'')"
| "cat_last [t] = Inr t"
| "cat_last (t # ts) = bindE (cat_last ts) (\<lambda>r. cat2 t r)"

text \<open>
  \<open>dist.P2POp(dist.isend, tensor, peer)\<close> and \<open>dist.P2POp(dist.irecv, buffer, peer)\<close>.
\<close>

datatype 'a P2POp = isend "'a tensor" int | irecv "'a tensor" int

fun peer :: "'a P2POp \<Rightarrow> int" where
  "peer (isend t p) = p"
| "peer (irecv t p) = p"

fun is_send :: "'a P2POp \<Rightarrow> bool" where
  "is_send (isend t p) = True"
| "is_send (irecv t p) = False"

text \<open>
  The process group is external. \<open>net ops i\<close> is the content of the tensor of the \<open>i\<close>-th
  request of the batch \<open>ops\<close> once \<open>dist.batch_isend_irecv(ops)\<close> has been issued and every
  returned request has been waited for: for an \<open>irecv\<close>, what the peer delivered into the
  buffer. Every function below returns, beside its result or exception, the list of
  point-to-point requests it has issued.
\<close>

type_synonym 'a net = "'a P2POp list \<Rightarrow> nat \<Rightarrow> 'a tensor"

text \<open>
  The nine positional arguments of \<open>aten.convolution.default\<close>
  (\<open>assert len(local_tensor_args) == 9\<close> holds by the type). The third argument is the
  bias tensor in the forward operator (\<open>'b = 'a list\<close>) and the optional bias sizes in the
  backward operator (\<open>'b = int list\<close>).
\<close>

record ('a, 'b) conv_args =
  in_tensor :: "'a tensor"
  weight :: "'a tensor"
  bias :: "'b option"
  stride :: "int list"
  padding :: "int list"
  dilation :: "int list"
  transposed :: bool
  output_padding :: "int list"
  groups :: int

definition conv_key :: string where
  "conv_key = ''aten.convolution.default''"

subsection \<open>Forward\<close>

text \<open>
  The source writes the same two blocks in \<open>tp_convolution\<close> and in
  \<open>tp_convolution_backward\<close>; each is one definition here.

  "step1 dist comms": the ring neighbours \<open>right = (rank + 1) % size\<close> and
  \<open>left = (rank - 1 + size) % size\<close>, the two zero-filled receive buffers, and the batch
  \<open>[send_op_right, send_op_left, recv_op_left, recv_op_right]\<close> passed to
  \<open>dist.batch_isend_irecv\<close>. The world size \<open>dist.get_world_size()\<close> is at least 1.
\<close>

definition halo_requests ::
  "int \<Rightarrow> int \<Rightarrow> ('a::zero) tensor \<Rightarrow> 'a tensor \<Rightarrow> 'a P2POp list" where
  "halo_requests rank wsize send_to_right send_to_left =
     (let right = (rank + 1) mod wsize;
          left = (rank - 1 + wsize) mod wsize;
          recv_from_right = zeros_like send_to_left;
          recv_from_left = zeros_like send_to_right;
          send_op_right = isend send_to_right right;
          send_op_left = isend send_to_left left;
          recv_op_right = irecv recv_from_right right;
          recv_op_left = irecv recv_from_left left
      in [send_op_right, send_op_left, recv_op_left, recv_op_right])"

text \<open>"step2 reconstruct local input tensor".\<close>

definition reconstruct_input ::
  "int \<Rightarrow> int \<Rightarrow> 'a tensor \<Rightarrow> 'a tensor \<Rightarrow> 'a tensor \<Rightarrow> exn + 'a tensor" where
  "reconstruct_input rank wsize in_t recv_from_left recv_from_right =
     (if rank = 0 then cat_last [in_t, recv_from_right]
      else if rank = wsize - 1 then cat_last [recv_from_left, in_t]
      else cat_last [recv_from_left, in_t, recv_from_right])"

text \<open>
  "step4 remove extra ouputs from the results" of \<open>tp_convolution\<close>; \<open>pad\<close> is the
  integer \<open>padding = local_tensor_args[4][1]\<close>.
\<close>

definition remove_extra_outputs :: "int \<Rightarrow> int \<Rightarrow> int \<Rightarrow> 'a tensor \<Rightarrow> 'a tensor" where
  "remove_extra_outputs rank wsize pad local_results =
     (let w = shape local_results ! 3 in
      if rank = 0 then slice_last None (Some (w - pad)) local_results
      else if rank = wsize - 1 then slice_last (Some pad) None local_results
      else slice_last (Some pad) (Some (w - pad)) local_results)"

text \<open>
  \<open>tp_convolution(op_call, *local_tensor_args, **local_tensor_kwargs)\<close> on the rank
  \<open>rank = dist.get_rank()\<close> of a group of \<open>wsize = dist.get_world_size()\<close> ranks
  (\<open>size\<close> in the source). The result is paired with the requests issued.
\<close>

definition tp_convolution ::
  "((('a::zero), 'b) conv_args, 'k, 'a tensor) OpOverload \<Rightarrow> int \<Rightarrow> int \<Rightarrow> 'a net \<Rightarrow>
   ('a, 'b) conv_args \<Rightarrow> 'k \<Rightarrow> (exn + 'a tensor) \<times> 'a P2POp list" where
  "tp_convolution op_call rank wsize net local_tensor_args local_tensor_kwargs =
    (if op_key op_call \<noteq> conv_key then (Inl (AssertionError []), [])
     else
      let in_t = in_tensor local_tensor_args;
          w_t = weight local_tensor_args
      in
      case is_supported (shape in_t) (shape w_t) (stride local_tensor_args)
             (padding local_tensor_args) (dilation local_tensor_args) of
        Inl e \<Rightarrow> (Inl e, [])
      | Inr ok \<Rightarrow>
        if \<not> ok then (Inl (AssertionError []), [])
        else
        (case requires_data_exchange (padding local_tensor_args) of
          Inl e \<Rightarrow> (Inl e, [])
        | Inr False \<Rightarrow> (op_run op_call local_tensor_args local_tensor_kwargs, [])
        | Inr True \<Rightarrow>
          let d = shape w_t ! 3 - 1;
              d1 = d div 2;
              d2 = d - d1;
              send_to_right = slice_last (Some (- d1)) None in_t;
              send_to_left = slice_last None (Some d2) in_t;
              reqs = halo_requests rank wsize send_to_right send_to_left;
              recv_from_left = net reqs 2;
              recv_from_right = net reqs 3
          in
          (bindE (reconstruct_input rank wsize in_t recv_from_left recv_from_right) (\<lambda>in_t'.
           bindE (op_run op_call (local_tensor_args\<lparr>in_tensor := in_t'\<rparr>) local_tensor_kwargs)
             (\<lambda>local_results.
           bindE (idx (padding local_tensor_args) 1) (\<lambda>padding.
           Inr (remove_extra_outputs rank wsize padding local_results)))),
           reqs)))"

subsection \<open>Backward\<close>

text \<open>
  The eleven positional arguments of \<open>aten.convolution_backward.default\<close>: the gradient of
  the output, then the input, the weight, the optional bias sizes and the hyperparameters,
  then the output mask.
\<close>

record ('a, 'b) conv_backward_args = "('a, 'b) conv_args" +
  grad_out_tensor :: "'a tensor"
  output_mask :: "bool list"

definition conv_backward_key :: string where
  "conv_backward_key = ''aten.convolution_backward.default''"

text \<open>
  \<open>torch.nn.functional.pad(t, (l, r), "constant", 0)\<close> on the last axis; a negative amount
  crops, and torch raises when the resulting size is negative.
\<close>

definition pad_row :: "int \<Rightarrow> int \<Rightarrow> ('a::zero) list \<Rightarrow> 'a list" where
  "pad_row l r row =
     (let a = (if 0 \<le> l then replicate (nat l) 0 @ row else drop (nat (- l)) row)
      in if 0 \<le> r then a @ replicate (nat r) 0 else take (length a - nat (- r)) a)"

definition pad_last :: "int \<Rightarrow> int \<Rightarrow> ('a::zero) tensor \<Rightarrow> exn + 'a tensor" where
  "pad_last l r t =
     (if shape t ! 3 + l + r < 0
      then Inl (RuntimeError ''The input size plus negative padding resulted in a negative output size'')
      else Inr (map (map (map (pad_row l r))) t))"

text \<open>
  \<open>torch.add(a, b)\<close> and the slice assignment \<open>t[:, :, :, start:stop] = v\<close>. Both are
  modelled for operands of equal shape, which is what the halo exchange produces; torch
  raises a \<open>RuntimeError\<close> on shapes that do not broadcast, and broadcasting of a size-one
  axis is not modelled (it is an error here).
\<close>

definition msg_shape :: string where
  "msg_shape = ''The size of tensor a must match the size of tensor b''"

definition add_t :: "('a::plus) tensor \<Rightarrow> 'a tensor \<Rightarrow> exn + 'a tensor" where
  "add_t a b =
     (if map (map (map length)) a = map (map (map length)) b
      then Inr (map2 (map2 (map2 (map2 (+)))) a b)
      else Inl (RuntimeError msg_shape))"

definition set_slice_row :: "int option \<Rightarrow> int option \<Rightarrow> 'a list \<Rightarrow> 'a list \<Rightarrow> 'a list" where
  "set_slice_row start stop row v =
     (let n = int (length row);
          s = (case start of None \<Rightarrow> 0 | Some i \<Rightarrow> slice_bound n i);
          e = (case stop of None \<Rightarrow> length row | Some j \<Rightarrow> slice_bound n j)
      in take s row @ v @ drop (max s e) row)"

definition set_slice_last ::
  "int option \<Rightarrow> int option \<Rightarrow> 'a tensor \<Rightarrow> 'a tensor \<Rightarrow> exn + 'a tensor" where
  "set_slice_last start stop t v =
     (if map (map (map length)) (slice_last start stop t) = map (map (map length)) v
      then Inr (map2 (map2 (map2 (set_slice_row start stop))) t v)
      else Inl (RuntimeError msg_shape))"

text \<open>
  \<open>tp_convolution_backward(op_call, *local_tensor_args, **local_tensor_kwargs)\<close>. The local
  operator returns the triple (gradient of the input, of the weight, of the bias), each
  \<open>None\<close> where the output mask is off; slicing a \<open>None\<close> gradient of the input raises a
  \<open>TypeError\<close>. \<open>pad_grad_out\<close> is "step3 reconstruct local gradient output tensor" and
  \<open>aggregate_edges\<close> the three-way branch of "step5 aggregate gradients for edge pixels",
  where \<open>add_right\<close> is
  \<open>g[:, :, :, -d1:] = torch.add(g[:, :, :, -d1:], recv_from_right)\<close> and \<open>add_left\<close> is
  \<open>g[:, :, :, :d2] = torch.add(g[:, :, :, :d2], recv_from_left)\<close>.
\<close>

definition pad_grad_out :: "int \<Rightarrow> int \<Rightarrow> int \<Rightarrow> ('a::zero) tensor \<Rightarrow> exn + 'a tensor" where
  "pad_grad_out rank wsize pad grad_out_t =
     (if rank = 0 then pad_last 0 pad grad_out_t
      else if rank = wsize - 1 then pad_last pad 0 grad_out_t
      else pad_last pad pad grad_out_t)"

definition add_right :: "int \<Rightarrow> ('a::plus) tensor \<Rightarrow> 'a tensor \<Rightarrow> exn + 'a tensor" where
  "add_right d1 recv_from_right g =
     bindE (add_t (slice_last (Some (- d1)) None g) recv_from_right)
       (set_slice_last (Some (- d1)) None g)"

definition add_left :: "int \<Rightarrow> ('a::plus) tensor \<Rightarrow> 'a tensor \<Rightarrow> exn + 'a tensor" where
  "add_left d2 recv_from_left g =
     bindE (add_t (slice_last None (Some d2) g) recv_from_left)
       (set_slice_last None (Some d2) g)"

definition aggregate_edges ::
  "int \<Rightarrow> int \<Rightarrow> int \<Rightarrow> int \<Rightarrow> ('a::plus) tensor \<Rightarrow> 'a tensor \<Rightarrow> 'a tensor \<Rightarrow> exn + 'a tensor" where
  "aggregate_edges rank wsize d1 d2 grad_in_t recv_from_left recv_from_right =
     (if rank = 0 then
        add_right d1 recv_from_right (slice_last None (Some (- d2)) grad_in_t)
      else if rank = wsize - 1 then
        add_left d2 recv_from_left (slice_last (Some d1) None grad_in_t)
      else
        bindE (add_right d1 recv_from_right (slice_last (Some d1) (Some (- d2)) grad_in_t))
          (add_left d2 recv_from_left))"

definition tp_convolution_backward ::
  "((('a::{zero,plus}), 'b) conv_backward_args, 'k, 'a tensor option \<times> 'g) OpOverload \<Rightarrow>
   int \<Rightarrow> int \<Rightarrow> 'a net \<Rightarrow> ('a, 'b) conv_backward_args \<Rightarrow> 'k \<Rightarrow>
   (exn + 'a tensor option \<times> 'g) \<times> 'a P2POp list" where
  "tp_convolution_backward op_call rank wsize net local_tensor_args local_tensor_kwargs =
    (if op_key op_call \<noteq> conv_backward_key then (Inl (AssertionError []), [])
     else
      let grad_out_t = grad_out_tensor local_tensor_args;
          in_t = in_tensor local_tensor_args;
          w_t = weight local_tensor_args
      in
      case is_supported (shape in_t) (shape w_t) (stride local_tensor_args)
             (padding local_tensor_args) (dilation local_tensor_args) of
        Inl e \<Rightarrow> (Inl e, [])
      | Inr ok \<Rightarrow>
        if \<not> ok then (Inl (AssertionError []), [])
        else
        (case requires_data_exchange (padding local_tensor_args) of
          Inl e \<Rightarrow> (Inl e, [])
        | Inr False \<Rightarrow> (op_run op_call local_tensor_args local_tensor_kwargs, [])
        | Inr True \<Rightarrow>
          let d = shape w_t ! 3 - 1;
              d1 = d div 2;
              d2 = d - d1;
              send_to_right = slice_last (Some (- d1)) None in_t;
              send_to_left = slice_last None (Some d2) in_t;
              reqs = halo_requests rank wsize send_to_right send_to_left;
              recv_from_left = net reqs 2;
              recv_from_right = net reqs 3
          in
          case
            bindE (reconstruct_input rank wsize in_t recv_from_left recv_from_right) (\<lambda>in_t'.
            bindE (idx (padding local_tensor_args) 1) (\<lambda>padding.
            bindE (pad_grad_out rank wsize padding grad_out_t) (\<lambda>grad_out_t'.
            op_run op_call
              (local_tensor_args\<lparr>grad_out_tensor := grad_out_t', in_tensor := in_t'\<rparr>)
              local_tensor_kwargs)))
          of
            Inl e \<Rightarrow> (Inl e, reqs)
          | Inr (None, rest) \<Rightarrow> (Inl (TypeError ''NoneType object is not subscriptable''), reqs)
          | Inr (Some grad_in_t, rest) \<Rightarrow>
            let send_to_right = slice_last (Some (- d2)) None grad_in_t;
                send_to_left = slice_last None (Some d1) grad_in_t;
                reqs2 = halo_requests rank wsize send_to_right send_to_left;
                recv_from_left = net reqs2 2;
                recv_from_right = net reqs2 3
            in
            (bindE (aggregate_edges rank wsize d1 d2 grad_in_t recv_from_left recv_from_right)
               (\<lambda>grad_in_t'. Inr (Some grad_in_t', rest)),
             reqs @ reqs2)))"

subsection \<open>The local convolution operator\<close>

text \<open>
  Modelled from the spec: \<open>aten.convolution.default\<close>, the "plain local convolution" that
  the halo-exchange path calls and that its oracle runs on the gathered input. The operator
  is not part of the three modelled files. The model is the standard two-dimensional
  convolution (cross-correlation of the zero-padded input with each filter, summed over the
  input channels, plus the bias) whose output sizes obey the formula of \<open>convolution_rules\<close>.
  It covers dilation 1, one group and no transposition; every function of the halo-exchange
  path takes the operator as a parameter, and this model only instantiates it in closed
  examples.
\<close>

definition pad2d :: "nat \<Rightarrow> nat \<Rightarrow> ('a::zero) list list \<Rightarrow> 'a list list" where
  "pad2d ph pw m =
     (let wd = length (first_of m) + 2 * pw
      in replicate ph (replicate wd 0)
         @ map (\<lambda>r. replicate pw 0 @ r @ replicate pw 0) m
         @ replicate ph (replicate wd 0))"

definition corr_at ::
  "('a::semiring_0) list list \<Rightarrow> 'a list list \<Rightarrow> nat \<Rightarrow> nat \<Rightarrow> 'a" where
  "corr_at x k i j =
     sum_list (concat (map (\<lambda>a. map (\<lambda>b. x ! (i + a) ! (j + b) * k ! a ! b)
                                      [0..<length (first_of k)]) [0..<length k]))"

definition corr2d ::
  "nat \<Rightarrow> nat \<Rightarrow> ('a::semiring_0) list list \<Rightarrow> 'a list list \<Rightarrow> 'a list list" where
  "corr2d sh sw x k =
     map (\<lambda>i. map (\<lambda>j. corr_at x k (i * sh) (j * sw))
                 [0..<(length (first_of x) - length (first_of k)) div sw + 1])
         [0..<(length x - length k) div sh + 1]"

definition add_mat :: "('a::semiring_0) list list \<Rightarrow> 'a list list \<Rightarrow> 'a list list" where
  "add_mat a b = map2 (map2 (+)) a b"

definition conv_channel ::
  "nat \<Rightarrow> nat \<Rightarrow> nat \<Rightarrow> nat \<Rightarrow> ('a::semiring_0) list list list \<Rightarrow> 'a list list list \<Rightarrow> 'a \<Rightarrow>
   'a list list" where
  "conv_channel sh sw ph pw x f b =
     (let hin = length (first_of x) + 2 * ph;
          win = length (first_of (first_of x)) + 2 * pw;
          kh = length (first_of f);
          kw = length (first_of (first_of f));
          start = replicate ((hin - kh) div sh + 1) (replicate ((win - kw) div sw + 1) b)
      in foldl add_mat start (map2 (\<lambda>xc fc. corr2d sh sw (pad2d ph pw xc) fc) x f))"

definition aten_convolution_run :: "(('a::semiring_0), 'a list) conv_args \<Rightarrow> 'k \<Rightarrow> exn + 'a tensor" where
  "aten_convolution_run a kw =
     bindE (idx (stride a) 0) (\<lambda>sh. bindE (idx (stride a) 1) (\<lambda>sw.
     bindE (idx (padding a) 0) (\<lambda>ph. bindE (idx (padding a) 1) (\<lambda>pw.
     bindE (idx (dilation a) 0) (\<lambda>dh. bindE (idx (dilation a) 1) (\<lambda>dw.
     if dh = 1 \<and> dw = 1 \<and> \<not> transposed a \<and> groups a = 1 then
       (if sh \<le> 0 \<or> sw \<le> 0 then Inl (RuntimeError ''non-positive stride is not supported'')
       else if ph < 0 \<or> pw < 0 then Inl (RuntimeError ''negative padding is not supported'')
       else
         let x = in_tensor a; f = weight a; sx = shape x; sf = shape f in
         if sx ! 1 \<noteq> sf ! 1 then Inl (RuntimeError ''input channels do not match the weight'')
         else if sx ! 2 + 2 * ph < sf ! 2 \<or> sx ! 3 + 2 * pw < sf ! 3
         then Inl (RuntimeError ''Kernel size can not be greater than actual input size'')
         else
           let bs = (case bias a of None \<Rightarrow> replicate (length f) 0 | Some b \<Rightarrow> b) in
           if length bs \<noteq> length f then Inl (RuntimeError ''bias does not match the weight'')
           else Inr (map (\<lambda>xn. map2 (\<lambda>fc b. conv_channel (nat sh) (nat sw) (nat ph) (nat pw) xn fc b)
                                    f bs) x))
     else Inl (NotImplementedError ''convolution model: dilation, groups, transposed'')))))))"

definition aten_convolution ::
  "((('a::semiring_0), 'a list) conv_args, 'k, 'a tensor) OpOverload" where
  "aten_convolution =
     \<lparr>op_key = conv_key,
      op_sig = \<lparr>name = ''aten::convolution'', overload_name = [], arguments = []\<rparr>,
      op_run = aten_convolution_run\<rparr>"

subsection \<open>All ranks together\<close>

text \<open>
  Modelled from the spec: the point-to-point layer ("batch point-to-point send/recv with
  wait") of the process group, an external collaborator. \<open>posted p\<close> is the batch that rank
  \<open>p\<close> issues. A receive on rank \<open>r\<close> from peer \<open>p\<close> completes with the message of the
  matching send of \<open>p\<close> addressed to \<open>r\<close>; the sends and receives between one pair of ranks
  are matched in the order they were posted. A receive without a matching send leaves the
  buffer as it is.
\<close>

fun tensor_of :: "'a P2POp \<Rightarrow> 'a tensor" where
  "tensor_of (isend t p) = t"
| "tensor_of (irecv t p) = t"

fun is_recv_from :: "int \<Rightarrow> 'a P2POp \<Rightarrow> bool" where
  "is_recv_from p (isend t q) = False"
| "is_recv_from p (irecv t q) = (q = p)"

fun sent_to :: "int \<Rightarrow> 'a P2POp \<Rightarrow> 'a tensor list" where
  "sent_to r (isend t q) = (if q = r then [t] else [])"
| "sent_to r (irecv t q) = []"

definition no_net :: "'a net" where
  "no_net ops i = (if i < length ops then tensor_of (ops ! i) else [])"

definition deliver :: "(int \<Rightarrow> 'a P2POp list) \<Rightarrow> int \<Rightarrow> 'a net" where
  "deliver posted r ops i =
     (if i < length ops then
        (case ops ! i of
           isend t p \<Rightarrow> t
         | irecv buf p \<Rightarrow>
             (let k = length (filter (is_recv_from p) (take i ops));
                  msgs = concat (map (sent_to r) (posted p))
              in if k < length msgs then msgs ! k else buf))
      else [])"

text \<open>
  \<open>tp_convolution\<close> run on every rank of a group, rank \<open>r\<close> holding the arguments
  \<open>argss ! r\<close>. The requests a rank issues do not depend on what it receives, so the batch
  of each rank is read off a run that receives nothing.
\<close>

definition tp_convolution_world ::
  "((('a::zero), 'b) conv_args, 'k, 'a tensor) OpOverload \<Rightarrow> ('a, 'b) conv_args list \<Rightarrow> 'k \<Rightarrow>
   (exn + 'a tensor) list" where
  "tp_convolution_world op_call argss kw =
     (let wsize = int (length argss);
          posted = (\<lambda>p. if 0 \<le> p \<and> p < wsize
                         then snd (tp_convolution op_call p wsize no_net (argss ! nat p) kw)
                         else [])
      in map (\<lambda>r. fst (tp_convolution op_call (int r) wsize (deliver posted (int r))
                          (argss ! r) kw))
             [0..<length argss])"

section \<open>Sharding descriptors\<close>

text \<open>
  Modelled from the spec: the Sharding Descriptor (\<open>DTensorSpec\<close>) and its tensor
  metadata, of \<open>placement_types.py\<close>, which is not among the modelled files. A descriptor
  holds the mesh, one placement per mesh dimension and the optional tensor metadata (logical
  shape, logical stride, dtype). The device mesh is external; only its number of dimensions
  matters here.
\<close>

datatype Placement = Shard nat | Replicate | Partial

record DeviceMesh =
  mesh_dims :: "nat list"

definition mesh_ndim :: "DeviceMesh \<Rightarrow> nat" where
  "mesh_ndim m = length (mesh_dims m)"

record TensorMeta =
  tm_shape :: "int list"
  tm_stride :: "int list"
  tm_dtype :: string

record DTensorSpec =
  mesh :: DeviceMesh
  placements :: "Placement list"
  tensor_meta :: "TensorMeta option"

text \<open>A descriptor is fully Replicate: no \<open>Shard\<close> placement and no pending reduction.\<close>

definition fully_replicate :: "DTensorSpec \<Rightarrow> bool" where
  "fully_replicate sp = list_all (\<lambda>p. p = Replicate) (placements sp)"

text \<open>
  Modelled from the spec: the dim-map and the pending-reduction list of a descriptor, and the
  construction of a descriptor from them. \<open>dim_map\<close> has one entry per tensor dimension:
  the mesh dimension that shards it, or \<open>-1\<close>. \<open>sums\<close> lists the mesh dimensions whose
  placement is \<open>Partial\<close>. \<open>from_dim_map\<close> starts from Replicate on every mesh dimension,
  marks the mesh dimensions of \<open>sums\<close> as \<open>Partial\<close>, and puts \<open>Shard i\<close> on mesh
  dimension \<open>m\<close> for every tensor dimension \<open>i\<close> whose entry \<open>m\<close> is not negative.
\<close>

fun dim_map_loop :: "nat \<Rightarrow> Placement list \<Rightarrow> int list \<Rightarrow> exn + int list" where
  "dim_map_loop i [] r = Inr r"
| "dim_map_loop i (Shard d # ps) r =
     (if d < length r then
        (if r ! d > - 1 then Inl (ValueError ''tensor dim is sharded on two mesh dims'')
         else dim_map_loop (Suc i) ps (r[d := int i]))
      else Inl IndexError)"
| "dim_map_loop i (Replicate # ps) r = dim_map_loop (Suc i) ps r"
| "dim_map_loop i (Partial # ps) r = dim_map_loop (Suc i) ps r"

definition dim_map :: "DTensorSpec \<Rightarrow> exn + int list" where
  "dim_map sp =
     (case tensor_meta sp of
        None \<Rightarrow> Inl (ValueError ''tensor_meta is not set'')
      | Some tm \<Rightarrow> dim_map_loop 0 (placements sp) (replicate (length (tm_shape tm)) (- 1)))"

definition sums :: "DTensorSpec \<Rightarrow> int list" where
  "sums sp = map (\<lambda>(i, p). int i) (filter (\<lambda>(i, p). p = Partial) (enumerate 0 (placements sp)))"

fun set_partials :: "int list \<Rightarrow> Placement list \<Rightarrow> exn + Placement list" where
  "set_partials [] ps = Inr ps"
| "set_partials (s # ss) ps =
     (if 0 \<le> s \<and> s < int (length ps) then set_partials ss (ps[nat s := Partial])
      else Inl IndexError)"

fun set_shards :: "nat \<Rightarrow> int list \<Rightarrow> Placement list \<Rightarrow> exn + Placement list" where
  "set_shards i [] ps = Inr ps"
| "set_shards i (m # ms) ps =
     (if 0 \<le> m then
        (if m < int (length ps) then
           (case ps ! nat m of
              Shard d \<Rightarrow> Inl (RuntimeError ''two tensor dims are sharded on one mesh dim'')
            | Partial \<Rightarrow> Inl (RuntimeError ''a mesh dim cannot be both shard and partial'')
            | Replicate \<Rightarrow> set_shards (Suc i) ms (ps[nat m := Shard i]))
         else Inl IndexError)
      else set_shards (Suc i) ms ps)"

definition from_dim_map ::
  "DeviceMesh \<Rightarrow> int list \<Rightarrow> int list \<Rightarrow> TensorMeta option \<Rightarrow> exn + DTensorSpec" where
  "from_dim_map m dm ss tm =
     bindE (set_partials ss (replicate (mesh_ndim m) Replicate)) (\<lambda>ps.
     bindE (set_shards 0 dm ps) (\<lambda>ps'.
     Inr \<lparr>mesh = m, placements = ps', tensor_meta = tm\<rparr>))"

section \<open>Operator schemas and output shardings (\<open>dispatch.py\<close>)\<close>

text \<open>
  The values that occur as operator arguments. \<open>DT a\<close> is the distributed tensor object at
  address \<open>a\<close> of the heap below, \<open>LT t\<close> a plain local \<open>torch.Tensor\<close> (identified by
  \<open>t\<close>; the contents of local tensors are not modelled), \<open>Spec sp\<close> a sharding
  descriptor. Lists, tuples and dictionaries (in insertion order) are the containers that
  the tree functions look into; every other value is a leaf.
\<close>

datatype obj =
    DT nat
  | LT nat
  | Spec DTensorSpec
  | NoneV
  | IntV int
  | BoolV bool
  | StrV string
  | ListV "obj list"
  | TupleV "obj list"
  | DictV "(string \<times> obj) list"

text \<open>
  The result of a rule, \<open>OutputSpecType\<close>: \<open>None\<close>, one descriptor, or a tuple or a list of
  optional descriptors. The dispatcher tells a tuple from a list (\<open>isinstance(_, tuple)\<close>).
\<close>

datatype OutputSpec =
    NoSpec
  | OneSpec DTensorSpec
  | TupleSpec "DTensorSpec option list"
  | ListSpec "DTensorSpec option list"

record OpSchema =
  func_schema :: FunctionSchema
  args_schema :: "obj list"
  kwargs_schema :: "(string \<times> obj) list"
  is_inplace :: bool
  is_out_variant :: bool

record OutputSharding =
  output_spec :: OutputSpec
  schema_suggestions :: "OpSchema list option"
  failed_reason :: "string option"

text \<open>\<open>sub in s\<close> on strings.\<close>

fun starts_with :: "string \<Rightarrow> string \<Rightarrow> bool" where
  "starts_with [] s = True"
| "starts_with (c # cs) [] = False"
| "starts_with (c # cs) (d # ds) = (c = d \<and> starts_with cs ds)"

fun str_contains :: "string \<Rightarrow> string \<Rightarrow> bool" where
  "str_contains sub [] = (sub = [])"
| "str_contains sub (c # cs) = (starts_with sub (c # cs) \<or> str_contains sub cs)"

text \<open>
  The constructor of \<open>OpSchema\<close> with its \<open>__post_init__\<close>: \<open>name[-1]\<close> raises on an empty
  name.
\<close>

definition new_OpSchema ::
  "FunctionSchema \<Rightarrow> obj list \<Rightarrow> (string \<times> obj) list \<Rightarrow> exn + OpSchema" where
  "new_OpSchema fs args_s kwargs_s =
     (if name fs = [] then Inl IndexError
      else Inr \<lparr>func_schema = fs, args_schema = args_s, kwargs_schema = kwargs_s,
                is_inplace = (last (name fs) = CHR ''_''),
                is_out_variant = str_contains ''out'' (overload_name fs)\<rparr>)"

text \<open>The property \<open>args_spec\<close>: the descriptors among the positional arguments, in order.\<close>

fun spec_of :: "obj \<Rightarrow> DTensorSpec list" where
  "spec_of (Spec sp) = [sp]"
| "spec_of v = []"

definition args_spec :: "OpSchema \<Rightarrow> DTensorSpec list" where
  "args_spec sch = concat (map spec_of (args_schema sch))"

section \<open>Convolution sharding rules (\<open>conv_ops.py\<close>)\<close>

text \<open>
  Reading the arguments of a schema: \<open>x.tensor_meta\<close> of a descriptor argument, its
  \<open>.shape\<close> and \<open>.dtype\<close> (an \<open>AttributeError\<close> on anything that has no such
  attribute), the subscript \<open>xs[i]\<close> of a list or tuple (\<open>item_at\<close>), and the use of
  a value as an integer operand (\<open>as_int\<close>). A Python \<open>bool\<close> is an integer, \<open>True\<close>
  being 1 and \<open>False\<close> 0; arithmetic on anything else is modelled as a \<open>TypeError\<close>.
  \<open>int_at\<close> is a subscript whose value goes straight into the arithmetic.
\<close>

fun tensor_meta_of :: "obj \<Rightarrow> exn + TensorMeta option" where
  "tensor_meta_of (Spec sp) = Inr (tensor_meta sp)"
| "tensor_meta_of v = Inl (AttributeError ''tensor_meta'')"

fun meta_shape :: "TensorMeta option \<Rightarrow> exn + int list" where
  "meta_shape (Some tm) = Inr (tm_shape tm)"
| "meta_shape None = Inl (AttributeError ''shape'')"

fun meta_dtype :: "TensorMeta option \<Rightarrow> exn + string" where
  "meta_dtype (Some tm) = Inr (tm_dtype tm)"
| "meta_dtype None = Inl (AttributeError ''dtype'')"

fun as_int :: "obj \<Rightarrow> exn + int" where
  "as_int (IntV n) = Inr n"
| "as_int (BoolV b) = Inr (if b then 1 else 0)"
| "as_int v = Inl (TypeError ''unsupported operand type'')"

fun item_at :: "obj \<Rightarrow> nat \<Rightarrow> exn + obj" where
  "item_at (ListV xs) i = idx xs i"
| "item_at (TupleV xs) i = idx xs i"
| "item_at v i = Inl (TypeError ''object is not subscriptable'')"

definition int_at :: "obj \<Rightarrow> nat \<Rightarrow> exn + int" where
  "int_at v i = bindE (item_at v i) as_int"

fun as_spec :: "obj \<Rightarrow> exn + DTensorSpec" where
  "as_spec (Spec sp) = Inr sp"
| "as_spec v = Inl (AttributeError ''not a DTensorSpec'')"

text \<open>
  The analytic output size of one spatial dimension,
  \<open>(size_in + 2 * pad - dil * (ker - 1) - 1) // strd + 1\<close>.
\<close>

definition conv_out_size :: "int \<Rightarrow> int \<Rightarrow> int \<Rightarrow> int \<Rightarrow> int \<Rightarrow> exn + int" where
  "conv_out_size size_in pad dil ker strd =
     bindE (py_floordiv (size_in + 2 * pad - dil * (ker - 1) - 1) strd) (\<lambda>q. Inr (q + 1))"

text \<open>
  \<open>convolution_rules(op_schema)\<close>, registered for \<open>aten.convolution.default\<close>. The
  operands of \<open>H_out\<close> and \<open>W_out\<close> are read in the order Python evaluates them:
  \<open>padding[i]\<close> and its product and sum, then \<open>dilation[i]\<close>, then the kernel size and
  their product, then \<open>stride[i]\<close> and the floor division.
\<close>

definition convolution_rules :: "OpSchema \<Rightarrow> exn + OutputSharding" where
  "convolution_rules op_schema =
     (case args_schema op_schema of
        [input_spec, weight_spec, bias_spec, stride', padding', dilation', transposed',
         output_padding', groups'] \<Rightarrow>
          bindE (tensor_meta_of input_spec) (\<lambda>in_meta.
          bindE (meta_shape in_meta) (\<lambda>in_shape.
          bindE (tensor_meta_of weight_spec) (\<lambda>weight_meta.
          bindE (meta_shape weight_meta) (\<lambda>weight_shape.
          bindE (idx in_shape 0) (\<lambda>N.
          bindE (idx in_shape 1) (\<lambda>C_in.
          bindE (idx in_shape 2) (\<lambda>H_in.
          bindE (idx in_shape 3) (\<lambda>W_in.
          bindE (idx weight_shape 0) (\<lambda>C_out.
          bindE (int_at padding' 0) (\<lambda>p0.
          bindE (item_at dilation' 0) (\<lambda>dil0.
          bindE (idx weight_shape 2) (\<lambda>k2.
          bindE (as_int dil0) (\<lambda>d0.
          bindE (int_at stride' 0) (\<lambda>s0.
          bindE (conv_out_size H_in p0 d0 k2 s0) (\<lambda>H_out.
          bindE (int_at padding' 1) (\<lambda>p1.
          bindE (item_at dilation' 1) (\<lambda>dil1.
          bindE (idx weight_shape 3) (\<lambda>k3.
          bindE (as_int dil1) (\<lambda>d1.
          bindE (int_at stride' 1) (\<lambda>s1.
          bindE (conv_out_size W_in p1 d1 k3 s1) (\<lambda>W_out.
          let output_shape = [N, C_out, H_out, W_out];
              output_stride = [C_out * H_out * W_out, H_out * W_out, W_out, 1]
          in
          bindE (as_spec input_spec) (\<lambda>input_sp.
          bindE (dim_map input_sp) (\<lambda>output_dim_map.
          let pending_sums = sums input_sp in
          bindE (meta_dtype in_meta) (\<lambda>dtype.
          let tensor_meta =
                \<lparr>tm_shape = output_shape, tm_stride = output_stride, tm_dtype = dtype\<rparr>
          in
          bindE (from_dim_map (mesh input_sp) output_dim_map pending_sums (Some tensor_meta))
            (\<lambda>out_sp.
          Inr \<lparr>output_spec = OneSpec out_sp, schema_suggestions = None,
                failed_reason = None\<rparr>)))))))))))))))))))))))))
      | _ \<Rightarrow> Inl (ValueError ''not enough or too many values to unpack (expected 9)''))"

text \<open>
  \<open>torch.Size(bias_shape_opt)\<close>: the sizes of a list or tuple of integers; a \<open>TypeError\<close>
  on \<open>None\<close> and on everything else.
\<close>

fun ints_of :: "obj list \<Rightarrow> exn + int list" where
  "ints_of [] = Inr []"
| "ints_of (x # xs) = bindE (as_int x) (\<lambda>n. bindE (ints_of xs) (\<lambda>ns. Inr (n # ns)))"

fun torch_Size :: "obj \<Rightarrow> exn + int list" where
  "torch_Size (ListV xs) = ints_of xs"
| "torch_Size (TupleV xs) = ints_of xs"
| "torch_Size v = Inl (TypeError ''torch.Size() takes an iterable of int'')"

text \<open>
  \<open>convolution_backward_rules(op_schema)\<close>, registered for
  \<open>aten.convolution_backward.default\<close>. The rule returns a list of three descriptors.
\<close>

definition convolution_backward_rules :: "OpSchema \<Rightarrow> exn + OutputSharding" where
  "convolution_backward_rules op_schema =
     bindE (idx (args_schema op_schema) 0) (\<lambda>first_arg.
     case args_schema op_schema of
       [grad_output_spec, input_spec, weight_spec, bias_shape_opt, stride', padding', dilation',
        transposed', output_padding', groups', output_mask'] \<Rightarrow>
          bindE (tensor_meta_of weight_spec) (\<lambda>weight_tensor_meta.
          bindE (torch_Size bias_shape_opt) (\<lambda>bias_shape.
          bindE (tensor_meta_of input_spec) (\<lambda>in_meta.
          bindE (meta_dtype in_meta) (\<lambda>dtype.
          let bias_tensor_meta =
                \<lparr>tm_shape = bias_shape, tm_stride = [1], tm_dtype = dtype\<rparr>
          in
          bindE (as_spec input_spec) (\<lambda>input_sp.
          let grad_input_spec = input_sp in
          bindE (from_dim_map (mesh input_sp) [- 1, - 1, - 1, - 1] [0] weight_tensor_meta)
            (\<lambda>grad_weight_spec.
          bindE (from_dim_map (mesh input_sp) [- 1] [0] (Some bias_tensor_meta))
            (\<lambda>grad_bias_spec.
          Inr \<lparr>output_spec =
                  ListSpec [Some grad_input_spec, Some grad_weight_spec, Some grad_bias_spec],
                schema_suggestions = None, failed_reason = None\<rparr>)))))))
     | _ \<Rightarrow> Inl (ValueError ''not enough or too many values to unpack (expected 11)''))"

text \<open>The Rule Registry filled by the two \<open>register_prop_rule\<close> decorators.\<close>

definition conv_rule_registry :: "string \<rightharpoonup> (OpSchema \<Rightarrow> exn + OutputSharding)" where
  "conv_rule_registry =
     [conv_key \<mapsto> convolution_rules, conv_backward_key \<mapsto> convolution_backward_rules]"

section \<open>Distributed tensors and the tree functions\<close>

text \<open>
  Modelled from the spec: the distributed tensor value (\<open>api.py\<close>, not among the modelled
  files), an object that owns a local shard and carries a sharding descriptor. Objects live
  in a heap and are passed by address, so that mutation and object identity are visible:
  \<open>objects h a\<close> is the object at address \<open>a\<close> and \<open>fresh h\<close> the address that the next
  constructed wrapper gets. The attribute \<open>_spec\<close> is a descriptor by its annotation, but
  the dispatcher assigns to it through unchecked casts, so the field holds any output spec.
\<close>

record DTensor =
  local_tensor :: nat
  spec :: OutputSpec

record heap =
  objects :: "nat \<Rightarrow> DTensor"
  fresh :: nat

definition new_DTensor :: "nat \<Rightarrow> DTensorSpec \<Rightarrow> heap \<Rightarrow> obj \<times> heap" where
  "new_DTensor t sp h =
     (DT (fresh h),
      h\<lparr>objects := (objects h)(fresh h := \<lparr>local_tensor = t, spec = OneSpec sp\<rparr>),
        fresh := Suc (fresh h)\<rparr>)"

text \<open>\<open>self._spec = sp\<close> on the object at address \<open>a\<close>.\<close>

definition set_spec :: "nat \<Rightarrow> OutputSpec \<Rightarrow> heap \<Rightarrow> heap" where
  "set_spec a sp h = h\<lparr>objects := (objects h)(a := (objects h a)\<lparr>spec := sp\<rparr>)\<rparr>"

text \<open>
  Modelled from the spec: \<open>unwrap_schema\<close> replaces a distributed tensor by its descriptor,
  \<open>unwrap_local_tensor\<close> by its local shard; everything else passes through unchanged
  (\<open>utils.py\<close>, not among the modelled files).
\<close>

fun opt_spec_obj :: "DTensorSpec option \<Rightarrow> obj" where
  "opt_spec_obj None = NoneV"
| "opt_spec_obj (Some sp) = Spec sp"

fun spec_obj :: "OutputSpec \<Rightarrow> obj" where
  "spec_obj NoSpec = NoneV"
| "spec_obj (OneSpec sp) = Spec sp"
| "spec_obj (TupleSpec ss) = TupleV (map opt_spec_obj ss)"
| "spec_obj (ListSpec ss) = ListV (map opt_spec_obj ss)"

fun unwrap_schema :: "heap \<Rightarrow> obj \<Rightarrow> obj" where
  "unwrap_schema h (DT a) = spec_obj (spec (objects h a))"
| "unwrap_schema h v = v"

fun unwrap_local_tensor :: "heap \<Rightarrow> obj \<Rightarrow> obj" where
  "unwrap_local_tensor h (DT a) = LT (local_tensor (objects h a))"
| "unwrap_local_tensor h v = v"

text \<open>
  Modelled from the spec: the generic tree functions (\<open>torch.utils._pytree\<close>, not among the
  modelled files). \<open>tree_map\<close> applies a function to every leaf and keeps the shape;
  \<open>tree_flatten\<close> lists the leaves in order, the tree itself serving as the tree
  structure; \<open>tree_unflatten\<close> puts a list of leaves back into a tree structure and raises
  when their number differs from the number of leaves of the structure.
\<close>

fun tree_map :: "(obj \<Rightarrow> obj) \<Rightarrow> obj \<Rightarrow> obj" where
  "tree_map f (ListV xs) = ListV (map (tree_map f) xs)"
| "tree_map f (TupleV xs) = TupleV (map (tree_map f) xs)"
| "tree_map f (DictV kvs) = DictV (map (\<lambda>(k, v). (k, tree_map f v)) kvs)"
| "tree_map f v = f v"

fun tree_flatten :: "obj \<Rightarrow> obj list" where
  "tree_flatten (ListV xs) = concat (map tree_flatten xs)"
| "tree_flatten (TupleV xs) = concat (map tree_flatten xs)"
| "tree_flatten (DictV kvs) = concat (map (\<lambda>(k, v). tree_flatten v) kvs)"
| "tree_flatten v = [v]"

fun fill :: "obj \<Rightarrow> obj list \<Rightarrow> obj \<times> obj list"
  and fill_list :: "obj list \<Rightarrow> obj list \<Rightarrow> obj list \<times> obj list"
  and fill_dict :: "(string \<times> obj) list \<Rightarrow> obj list \<Rightarrow> (string \<times> obj) list \<times> obj list" where
  "fill (ListV xs) ls = (case fill_list xs ls of (ys, r) \<Rightarrow> (ListV ys, r))"
| "fill (TupleV xs) ls = (case fill_list xs ls of (ys, r) \<Rightarrow> (TupleV ys, r))"
| "fill (DictV kvs) ls = (case fill_dict kvs ls of (ys, r) \<Rightarrow> (DictV ys, r))"
| "fill (DT a) ls = (case ls of [] \<Rightarrow> (DT a, []) | l # r \<Rightarrow> (l, r))"
| "fill (LT t) ls = (case ls of [] \<Rightarrow> (LT t, []) | l # r \<Rightarrow> (l, r))"
| "fill (Spec sp) ls = (case ls of [] \<Rightarrow> (Spec sp, []) | l # r \<Rightarrow> (l, r))"
| "fill NoneV ls = (case ls of [] \<Rightarrow> (NoneV, []) | l # r \<Rightarrow> (l, r))"
| "fill (IntV n) ls = (case ls of [] \<Rightarrow> (IntV n, []) | l # r \<Rightarrow> (l, r))"
| "fill (BoolV b) ls = (case ls of [] \<Rightarrow> (BoolV b, []) | l # r \<Rightarrow> (l, r))"
| "fill (StrV s) ls = (case ls of [] \<Rightarrow> (StrV s, []) | l # r \<Rightarrow> (l, r))"
| "fill_list [] ls = ([], ls)"
| "fill_list (x # xs) ls =
     (case fill x ls of (y, r) \<Rightarrow> (case fill_list xs r of (ys, r') \<Rightarrow> (y # ys, r')))"
| "fill_dict [] ls = ([], ls)"
| "fill_dict ((k, v) # kvs) ls =
     (case fill v ls of (y, r) \<Rightarrow> (case fill_dict kvs r of (ys, r') \<Rightarrow> ((k, y) # ys, r')))"

definition tree_unflatten :: "obj list \<Rightarrow> obj \<Rightarrow> exn + obj" where
  "tree_unflatten ls tree_spec =
     (if length ls \<noteq> length (tree_flatten tree_spec)
      then Inl (ValueError ''tree_unflatten: wrong number of leaves'')
      else Inr (fst (fill tree_spec ls)))"

text \<open>
  Modelled from the spec: \<open>wrap\<close> constructs new distributed tensors around the raw local
  results with the given descriptors (\<open>utils.py\<close>, not among the modelled files): one
  wrapper for a tensor and one descriptor, element by element for a list or tuple of results
  and a list or tuple of optional descriptors (\<open>None\<close> where either is missing), and a result
  that is no tensor is returned as it is.
\<close>

fun wrap_elems :: "obj list \<Rightarrow> DTensorSpec option list \<Rightarrow> heap \<Rightarrow> obj list \<times> heap" where
  "wrap_elems (LT t # es) (Some sp # ss) h =
     (case new_DTensor t sp h of (d, h') \<Rightarrow>
        (case wrap_elems es ss h' of (ds, h'') \<Rightarrow> (d # ds, h'')))"
| "wrap_elems (e # es) (s # ss) h = (case wrap_elems es ss h of (ds, h') \<Rightarrow> (NoneV # ds, h'))"
| "wrap_elems es ss h = ([], h)"

fun wrap :: "obj \<Rightarrow> OutputSpec \<Rightarrow> heap \<Rightarrow> (exn + obj) \<times> heap" where
  "wrap (LT t) (OneSpec sp) h = (case new_DTensor t sp h of (d, h') \<Rightarrow> (Inr d, h'))"
| "wrap (LT t) sps h = (Inl (AssertionError ''output spec does not match with output''), h)"
| "wrap (ListV es) (ListSpec ss) h = (case wrap_elems es ss h of (ds, h') \<Rightarrow> (Inr (ListV ds), h'))"
| "wrap (ListV es) sps h = (Inl (AssertionError ''output spec does not match with output''), h)"
| "wrap (TupleV es) (TupleSpec ss) h =
     (case wrap_elems es ss h of (ds, h') \<Rightarrow> (Inr (TupleV ds), h'))"
| "wrap (TupleV es) sps h = (Inl (AssertionError ''output spec does not match with output''), h)"
| "wrap v sps h = (Inr v, h)"

section \<open>Propagation driver and dispatcher (\<open>dispatch.py\<close>)\<close>

text \<open>
  A local operator of the dispatcher takes positional and keyword arguments and returns a
  value. A handler (a decomposition or a custom operator) is called on the original
  arguments and may itself dispatch, so it works on the heap.
\<close>

type_synonym local_op = "(obj list, (string \<times> obj) list, obj) OpOverload"

type_synonym handler = "obj list \<Rightarrow> (string \<times> obj) list \<Rightarrow> heap \<Rightarrow> (exn + obj) \<times> heap"

type_synonym rule = "OpSchema \<Rightarrow> exn + OutputSharding"

text \<open>
  What the dispatcher takes from its surroundings: the module flag \<open>_ENABLE_FALLBACK\<close>
  (\<open>False\<close> unless it is set), \<open>redistribute_dtensor\<close> of \<open>redistribute.py\<close> (external; it
  returns a new distributed tensor, which the dispatcher only reads), and the operator
  \<open>torch.ops.aten.view\<close> that \<open>_reshape_alias\<close> calls. \<open>_DEBUG_VERBOSE\<close> only prints and
  is left out.
\<close>

record dispatch_env =
  enable_fallback :: bool
  redistribute_dtensor :: "DTensor \<Rightarrow> DeviceMesh \<Rightarrow> Placement list \<Rightarrow> exn + DTensor"
  aten_view :: handler

text \<open>
  \<open>pack_args_kwargs_with_local_tensor(args, args_schema, redistribute_with_schema)\<close>: the
  loop over the flattened arguments, which overwrites the flattened schema in place.
\<close>

fun pack_loop ::
  "dispatch_env \<Rightarrow> heap \<Rightarrow> bool \<Rightarrow> nat \<Rightarrow> obj list \<Rightarrow> obj list \<Rightarrow> exn + obj list" where
  "pack_loop env h redistribute_with_schema i [] flatten_args_schema = Inr flatten_args_schema"
| "pack_loop env h redistribute_with_schema i (DT a # rest) flatten_args_schema =
     bindE (if redistribute_with_schema then
              bindE (idx flatten_args_schema i) (\<lambda>target.
              bindE (as_spec target) (\<lambda>target_spec.
              redistribute_dtensor env (objects h a) (mesh target_spec) (placements target_spec)))
            else Inr (objects h a)) (\<lambda>arg.
     if i < length flatten_args_schema
     then pack_loop env h redistribute_with_schema (Suc i) rest
            (flatten_args_schema[i := LT (local_tensor arg)])
     else Inl IndexError)"
| "pack_loop env h redistribute_with_schema i (v # rest) flatten_args_schema =
     pack_loop env h redistribute_with_schema (Suc i) rest flatten_args_schema"

definition pack_args_kwargs_with_local_tensor ::
  "dispatch_env \<Rightarrow> heap \<Rightarrow> obj \<Rightarrow> obj \<Rightarrow> bool \<Rightarrow> exn + obj" where
  "pack_args_kwargs_with_local_tensor env h args args_sch redistribute_with_schema =
     bindE (pack_loop env h redistribute_with_schema 0 (tree_flatten args) (tree_flatten args_sch))
       (\<lambda>flatten_args_schema. tree_unflatten flatten_args_schema args)"

text \<open>
  \<open>_reshape_alias(x, shape, strides)\<close> and the decomposition table with its one entry. The
  call \<open>_reshape_alias(*args, **kwargs)\<close> binds the three parameters by position and then
  by name and raises a \<open>TypeError\<close> when they are not bound exactly once.
\<close>

definition reshape_alias_key :: string where
  "reshape_alias_key = ''aten._reshape_alias.default''"

fun bind_params :: "string list \<Rightarrow> obj list \<Rightarrow> (string \<times> obj) list \<Rightarrow> exn + obj list" where
  "bind_params [] [] kwargs =
     (if kwargs = [] then Inr [] else Inl (TypeError ''got an unexpected keyword argument''))"
| "bind_params [] (a # args) kwargs = Inl (TypeError ''too many positional arguments'')"
| "bind_params (n # ns) (a # args) kwargs =
     (if n \<in> set (map fst kwargs) then Inl (TypeError ''got multiple values for argument'')
      else bindE (bind_params ns args kwargs) (\<lambda>vs. Inr (a # vs)))"
| "bind_params (n # ns) [] kwargs =
     (case map_of kwargs n of
        None \<Rightarrow> Inl (TypeError ''missing a required argument'')
      | Some v \<Rightarrow> bindE (bind_params ns [] (filter (\<lambda>kv. fst kv \<noteq> n) kwargs)) (\<lambda>vs. Inr (v # vs)))"

definition reshape_alias :: "dispatch_env \<Rightarrow> handler" where
  "reshape_alias env args kwargs h =
     (case bind_params [''x'', ''shape'', ''strides''] args kwargs of
        Inl e \<Rightarrow> (Inl e, h)
      | Inr vs \<Rightarrow> aten_view env [vs ! 0, vs ! 1] [] h)"

definition CURRENT_DECOMPOSITION_TABLE :: "dispatch_env \<Rightarrow> string \<rightharpoonup> handler" where
  "CURRENT_DECOMPOSITION_TABLE env = [reshape_alias_key \<mapsto> reshape_alias env]"

text \<open>
  \<open>propagate_input_sharding(op_call, args, kwargs, op_to_rules)\<close>. The result is paired
  with the list of the schemas on which the looked-up rule was invoked, in order. The
  \<open>try\<close> around the first invocation re-raises any exception \<open>e\<close> of the rule as a
  \<open>RuntimeError\<close> chained to \<open>e\<close>; the second invocation is outside any \<open>try\<close>. The
  messages of the errors raised here hold the operator key and the failure reason; the
  printed schema and the printed original error are left out of them.
\<close>

definition msg_no_rule :: "string \<Rightarrow> string" where
  "msg_no_rule op_k =
     ''Operator '' @ op_k @ '' does not have a DistributedTensor rule registered.''"

definition msg_rule_failed :: "string \<Rightarrow> string" where
  "msg_rule_failed op_k = ''Sharding propagation failed on op '' @ op_k @ ''.''"

definition msg_no_suggestion :: "string \<Rightarrow> string option \<Rightarrow> string" where
  "msg_no_suggestion op_k reason =
     ''Sharding propagation failed on op '' @ op_k @ ''!Failed reason: ''
       @ (case reason of None \<Rightarrow> ''None'' | Some r \<Rightarrow> r)"

definition propagate_input_sharding ::
  "dispatch_env \<Rightarrow> local_op \<Rightarrow> obj list \<Rightarrow> (string \<times> obj) list \<Rightarrow> heap \<Rightarrow> (string \<rightharpoonup> rule) \<Rightarrow>
   (exn + OpSchema \<times> bool \<times> OutputSharding option) \<times> OpSchema list" where
  "propagate_input_sharding env op_call args kwargs h op_to_rules =
     (let args_s = map (tree_map (unwrap_schema h)) args;
          kwargs_s = map (\<lambda>(k, v). (k, tree_map (unwrap_schema h) v)) kwargs
      in
      case new_OpSchema (op_sig op_call) args_s kwargs_s of
        Inl e \<Rightarrow> (Inl e, [])
      | Inr op_schema \<Rightarrow>
        let op_k = op_key op_call in
        (case op_to_rules op_k of
           None \<Rightarrow>
             if \<not> enable_fallback env then (Inl (NotImplementedError (msg_no_rule op_k)), [])
             else (Inr (op_schema, False, None), [])
         | Some sharding_prop_func \<Rightarrow>
             (case sharding_prop_func op_schema of
                Inl e \<Rightarrow>
                  (Inl (RaisedFrom (RuntimeError (msg_rule_failed op_k)) e), [op_schema])
              | Inr output_sharding \<Rightarrow>
                  if output_spec output_sharding = NoSpec then
                    (case schema_suggestions output_sharding of
                       Some suggestions \<Rightarrow>
                         (case suggestions of
                            [] \<Rightarrow> (Inl IndexError, [op_schema])
                          | target_schema # others \<Rightarrow>
                              (case sharding_prop_func target_schema of
                                 Inl e \<Rightarrow> (Inl e, [op_schema, target_schema])
                               | Inr output_sharding' \<Rightarrow>
                                   (Inr (target_schema, True, Some output_sharding'),
                                    [op_schema, target_schema])))
                     | None \<Rightarrow>
                         (Inl (RuntimeError
                                 (msg_no_suggestion op_k (failed_reason output_sharding))),
                          [op_schema]))
                  else (Inr (op_schema, False, Some output_sharding), [op_schema]))))"

text \<open>
  The attribute assignment \<open>x._spec = sp\<close>. On a distributed tensor it changes the object
  in the heap; a plain tensor or a descriptor accepts the attribute, which the model does not
  track; the other values have no attributes to set.
\<close>

fun assign_spec :: "obj \<Rightarrow> OutputSpec \<Rightarrow> heap \<Rightarrow> exn + heap" where
  "assign_spec (DT a) sp h = Inr (set_spec a sp h)"
| "assign_spec (LT t) sp h = Inr h"
| "assign_spec (Spec x) sp h = Inr h"
| "assign_spec v sp h = Inl (AttributeError ''_spec'')"

text \<open>
  The out-variant branch: \<open>output_specs\<close> is the output spec itself when it is a tuple and
  the one-element tuple around it otherwise; the loop over the formal arguments looks every
  out argument up in \<open>kwargs\<close> by name.
\<close>

fun opt_spec :: "DTensorSpec option \<Rightarrow> OutputSpec" where
  "opt_spec None = NoSpec"
| "opt_spec (Some sp) = OneSpec sp"

fun output_specs_of :: "OutputSpec \<Rightarrow> OutputSpec list" where
  "output_specs_of (TupleSpec ss) = map opt_spec ss"
| "output_specs_of sp = [sp]"

fun out_loop ::
  "Argument list \<Rightarrow> (string \<times> obj) list \<Rightarrow> OutputSpec list \<Rightarrow> nat \<Rightarrow> obj list \<Rightarrow> heap \<Rightarrow>
   (exn + obj list) \<times> heap" where
  "out_loop [] kwargs output_specs spec_idx out_dts h = (Inr out_dts, h)"
| "out_loop (arg # rest) kwargs output_specs spec_idx out_dts h =
     (if is_out arg then
        (case map_of kwargs (arg_name arg) of
           None \<Rightarrow> (Inl (KeyError (arg_name arg)), h)
         | Some out_dt \<Rightarrow>
             (case idx output_specs spec_idx of
                Inl e \<Rightarrow> (Inl e, h)
              | Inr sp \<Rightarrow>
                  (case assign_spec out_dt sp h of
                     Inl e \<Rightarrow> (Inl e, h)
                   | Inr h' \<Rightarrow>
                       out_loop rest kwargs output_specs (Suc spec_idx) (out_dts @ [out_dt]) h')))
      else out_loop rest kwargs output_specs spec_idx out_dts h)"

definition msg_out :: string where
  "msg_out = ''out variant should have at least one out arg''"

definition out_variant_result ::
  "OpSchema \<Rightarrow> OutputSharding \<Rightarrow> (string \<times> obj) list \<Rightarrow> heap \<Rightarrow> (exn + obj) \<times> heap" where
  "out_variant_result target_schema output_sharding kwargs h =
     (case out_loop (arguments (func_schema target_schema)) kwargs
             (output_specs_of (output_spec output_sharding)) 0 [] h of
        (Inl e, h') \<Rightarrow> (Inl e, h')
      | (Inr out_dts, h') \<Rightarrow>
          if length out_dts \<ge> 1
          then (Inr (if length out_dts > 1 then TupleV out_dts else out_dts ! 0), h')
          else (Inl (AssertionError msg_out), h'))"

text \<open>The call \<open>op_call(*local_tensor_args, **local_tensor_kwargs)\<close>.\<close>

fun call_local :: "local_op \<Rightarrow> obj \<Rightarrow> obj \<Rightarrow> exn + obj" where
  "call_local op_call (TupleV xs) (DictV kvs) = op_run op_call xs kvs"
| "call_local op_call a k = Inl (TypeError ''argument after * must be an iterable'')"

text \<open>
  \<open>operator_dispatch(op_call, args, kwargs, op_to_rules, custom_dispatch_ops)\<close> on a heap;
  it returns its result or exception and the heap it leaves.
\<close>

definition operator_dispatch ::
  "dispatch_env \<Rightarrow> local_op \<Rightarrow> obj list \<Rightarrow> (string \<times> obj) list \<Rightarrow> heap \<Rightarrow> (string \<rightharpoonup> rule) \<Rightarrow>
   (string \<rightharpoonup> handler) \<Rightarrow> (exn + obj) \<times> heap" where
  "operator_dispatch env op_call args kwargs h op_to_rules custom_dispatch_ops =
     (case CURRENT_DECOMPOSITION_TABLE env (op_key op_call) of
        Some decomposition \<Rightarrow> decomposition args kwargs h
      | None \<Rightarrow>
     (case custom_dispatch_ops (op_key op_call) of
        Some custom_op \<Rightarrow> custom_op args kwargs h
      | None \<Rightarrow>
     (case fst (propagate_input_sharding env op_call args kwargs h op_to_rules) of
        Inl e \<Rightarrow> (Inl e, h)
      | Inr (target_schema, redistribute, None) \<Rightarrow>
          (case op_run op_call (map (tree_map (unwrap_local_tensor h)) args)
                  (map (\<lambda>(k, v). (k, tree_map (unwrap_local_tensor h) v)) kwargs) of
             Inl e \<Rightarrow> (Inl e, h)
           | Inr local_results \<Rightarrow>
               (case idx (args_spec target_schema) 0 of
                  Inl e \<Rightarrow> (Inl e, h)
                | Inr sp \<Rightarrow> wrap local_results (OneSpec sp) h))
      | Inr (target_schema, redistribute, Some output_sharding) \<Rightarrow>
          (case
             bindE (pack_args_kwargs_with_local_tensor env h (TupleV args)
                      (TupleV (args_schema target_schema)) redistribute) (\<lambda>local_tensor_args.
             bindE (pack_args_kwargs_with_local_tensor env h (DictV kwargs)
                      (DictV (kwargs_schema target_schema)) redistribute) (\<lambda>local_tensor_kwargs.
             call_local op_call local_tensor_args local_tensor_kwargs))
           of
             Inl e \<Rightarrow> (Inl e, h)
           | Inr local_results \<Rightarrow>
               if is_inplace target_schema then
                 (case idx args 0 of
                    Inl e \<Rightarrow> (Inl e, h)
                  | Inr self \<Rightarrow>
                      (case assign_spec self (output_spec output_sharding) h of
                         Inl e \<Rightarrow> (Inl e, h)
                       | Inr h' \<Rightarrow> (Inr self, h')))
               else if is_out_variant target_schema then
                 out_variant_result target_schema output_sharding kwargs h
               else wrap local_results (output_spec output_sharding) h))))"

section \<open>Example inputs\<close>

text \<open>
  Convolution arguments with one sample, one channel and one row: the input row \<open>xs\<close>, the
  kernel row \<open>k\<close>, stride 1, dilation 1 and padding \<open>p\<close> along the width.
\<close>

definition row_args :: "int list \<Rightarrow> int list \<Rightarrow> int \<Rightarrow> (int, int list) conv_args" where
  "row_args xs k p =
     \<lparr>in_tensor = [[[xs]]], weight = [[[k]]], bias = None, stride = [1, 1], padding = [0, p],
      dilation = [1, 1], transposed = False, output_padding = [0, 0], groups = 1\<rparr>"

text \<open>
  The same arguments for the backward operator, with the gradient row \<open>g\<close>, and a stand-in
  for the local backward operator that returns the input it is given as the gradient of the
  input. It only serves to run \<open>tp_convolution_backward\<close> on a closed example.
\<close>

definition row_backward_args ::
  "int list \<Rightarrow> int list \<Rightarrow> int list \<Rightarrow> int \<Rightarrow> (int, int list) conv_backward_args" where
  "row_backward_args g xs k p =
     \<lparr>in_tensor = [[[xs]]], weight = [[[k]]], bias = None, stride = [1, 1], padding = [0, p],
      dilation = [1, 1], transposed = False, output_padding = [0, 0], groups = 1,
      grad_out_tensor = [[[g]]], output_mask = [True, True, True]\<rparr>"

definition echo_backward ::
  "((int, int list) conv_backward_args, unit, int tensor option \<times> unit) OpOverload" where
  "echo_backward =
     \<lparr>op_key = conv_backward_key,
      op_sig = \<lparr>name = ''aten::convolution_backward'', overload_name = [], arguments = []\<rparr>,
      op_run = (\<lambda>a kw. Inr (Some (in_tensor a), ()))\<rparr>"

text \<open>
  Two networks that deliver a foreign column into the buffer of the receive from the left
  (request 2 of a batch), respectively from the right (request 3), and leave the other
  buffers as they are.
\<close>

definition left_noise_net :: "int net" where
  "left_noise_net ops i = (if i = 2 then [[[[7]]]] else no_net ops i)"

definition right_noise_net :: "int net" where
  "right_noise_net ops i = (if i = 3 then [[[[7]]]] else no_net ops i)"

text \<open>
  A descriptor on a one-dimensional mesh of four ranks, a heap whose objects are sharded on
  tensor dimension 0, and the surroundings of the dispatcher: the fallback flag off, a
  redistribution that returns the tensor with the target placements, and a view operator
  that returns \<open>None\<close>.
\<close>

definition ex_spec :: "Placement list \<Rightarrow> int list \<Rightarrow> DTensorSpec" where
  "ex_spec ps sh =
     \<lparr>mesh = \<lparr>mesh_dims = [4]\<rparr>, placements = ps,
      tensor_meta = Some \<lparr>tm_shape = sh, tm_stride = [], tm_dtype = ''float32''\<rparr>\<rparr>"

definition ex_heap :: heap where
  "ex_heap =
     \<lparr>objects = (\<lambda>a. \<lparr>local_tensor = 100 + a, spec = OneSpec (ex_spec [Shard 0] [8, 8])\<rparr>),
      fresh = 10\<rparr>"

definition ex_env :: dispatch_env where
  "ex_env =
     \<lparr>enable_fallback = False,
      redistribute_dtensor =
        (\<lambda>d m ps. Inr (d\<lparr>spec := OneSpec \<lparr>mesh = m, placements = ps, tensor_meta = None\<rparr>\<rparr>)),
      aten_view = (\<lambda>args kwargs h. (Inr NoneV, h))\<rparr>"

text \<open>
  Local operators that return the local tensor 99 whatever they are given: \<open>ex_op\<close> with a
  key, a base name, an overload name and formal arguments.
\<close>

definition ex_op :: "string \<Rightarrow> string \<Rightarrow> string \<Rightarrow> Argument list \<Rightarrow> local_op" where
  "ex_op k n ov as =
     \<lparr>op_key = k, op_sig = \<lparr>name = n, overload_name = ov, arguments = as\<rparr>,
      op_run = (\<lambda>args kwargs. Inr (LT 99))\<rparr>"

definition add_op :: local_op where
  "add_op = ex_op ''aten.add.Tensor'' ''aten::add'' ''Tensor'' []"

definition add_schema :: OpSchema where
  "add_schema =
     \<lparr>func_schema = op_sig add_op,
      args_schema = [Spec (ex_spec [Shard 0] [8, 8]), Spec (ex_spec [Shard 0] [8, 8])],
      kwargs_schema = [], is_inplace = False, is_out_variant = False\<rparr>"




definition resolving_rule :: rule where
  "resolving_rule sch =
     Inr \<lparr>output_spec = OneSpec (ex_spec [Replicate] [8, 8]), schema_suggestions = None,
          failed_reason = None\<rparr>"



text \<open>An in-place operator and an out-variant operator with one out argument.\<close>

definition add_inplace_op :: local_op where
  "add_inplace_op = ex_op ''aten.add_.Tensor'' ''aten::add_'' ''Tensor'' []"

definition add_out_op :: local_op where
  "add_out_op =
     ex_op ''aten.add.out'' ''aten::add'' ''out''
       [\<lparr>arg_name = ''self'', is_out = False\<rparr>, \<lparr>arg_name = ''other'', is_out = False\<rparr>,
        \<lparr>arg_name = ''out'', is_out = True\<rparr>]"

text \<open>
  An operator whose overload name marks it as an out variant but whose signature flags no
  argument as out; the descriptor of the objects of the example heap as a schema argument;
  and the schema of an operator with given schema arguments and flags.
\<close>

definition neg_out_op :: local_op where
  "neg_out_op = ex_op ''aten.neg.out'' ''aten::neg'' ''out'' []"

definition sharded :: obj where
  "sharded = Spec (ex_spec [Shard 0] [8, 8])"

definition ex_schema ::
  "local_op \<Rightarrow> obj list \<Rightarrow> (string \<times> obj) list \<Rightarrow> bool \<Rightarrow> bool \<Rightarrow> OpSchema" where
  "ex_schema op_call args_s kwargs_s inplace out =
     \<lparr>func_schema = op_sig op_call, args_schema = args_s, kwargs_schema = kwargs_s,
      is_inplace = inplace, is_out_variant = out\<rparr>"

text \<open>
  Schemas of a forward and of a backward convolution on the example mesh: an input of shape
  \<open>in_shape\<close> with the placements \<open>ps\<close>, a replicated weight of shape \<open>w_shape\<close>, and
  the given stride, padding and dilation. \<open>same_conv_schema\<close> is the case of the spec:
  spatial size 8, kernel 3, stride 1, padding 1 and dilation 1.
\<close>

definition conv_schema ::
  "Placement list \<Rightarrow> int list \<Rightarrow> int list \<Rightarrow> obj \<Rightarrow> obj \<Rightarrow> obj \<Rightarrow> OpSchema" where
  "conv_schema ps in_shape w_shape st pd dl =
     \<lparr>func_schema = \<lparr>name = ''aten::convolution'', overload_name = [], arguments = []\<rparr>,
      args_schema = [Spec (ex_spec ps in_shape), Spec (ex_spec [Replicate] w_shape),
                     NoneV, st, pd, dl, BoolV False, ListV [IntV 0, IntV 0], IntV 1],
      kwargs_schema = [], is_inplace = False, is_out_variant = False\<rparr>"

definition ones :: obj where
  "ones = ListV [IntV 1, IntV 1]"

definition same_conv_schema :: "Placement list \<Rightarrow> OpSchema" where
  "same_conv_schema ps = conv_schema ps [2, 3, 8, 8] [5, 3, 3, 3] ones ones ones"

definition conv_backward_schema :: "Placement list \<Rightarrow> OpSchema" where
  "conv_backward_schema ps =
     \<lparr>func_schema =
        \<lparr>name = ''aten::convolution_backward'', overload_name = [], arguments = []\<rparr>,
      args_schema = [Spec (ex_spec ps [2, 5, 8, 8]), Spec (ex_spec ps [2, 3, 8, 8]),
                     Spec (ex_spec [Replicate] [5, 3, 3, 3]), ListV [IntV 5], ones, ones, ones,
                     BoolV False, ListV [IntV 0, IntV 0], IntV 1,
                     ListV [BoolV True, BoolV True, BoolV True]],
      kwargs_schema = [], is_inplace = False, is_out_variant = False\<rparr>"

section \<open>Intermediate placements of \<open>from_dim_map\<close>\<close>



section \<open>What the out-variant loop amounts to\<close>

text \<open>
  The heap after the descriptors \<open>sp\<close> have been assigned, in order, to the distributed
  tensors paired with them. It states the effect of the out-variant loop in the theorem of
  claim C10.
\<close>

fun assign_all :: "(obj \<times> OutputSpec) list \<Rightarrow> heap \<Rightarrow> heap" where
  "assign_all [] h = h"
| "assign_all ((DT a, sp) # r) h = assign_all r (set_spec a sp h)"
| "assign_all (x # r) h = assign_all r h"

text \<open>
  The values on which the assignment \<open>x._spec = sp\<close> succeeds: a distributed tensor, a
  plain tensor and a descriptor.
\<close>

fun takes_spec :: "obj \<Rightarrow> bool" where
  "takes_spec (DT a) = True"
| "takes_spec (LT t) = True"
| "takes_spec (Spec sp) = True"
| "takes_spec v = False"

text \<open>
  A result made of distributed tensors only: one distributed tensor, or a tuple of them.
\<close>

fun is_DT :: "obj \<Rightarrow> bool" where
  "is_DT (DT a) = True"
| "is_DT v = False"

fun only_DTs :: "obj \<Rightarrow> bool" where
  "only_DTs (DT a) = True"
| "only_DTs (TupleV xs) = list_all is_DT xs"
| "only_DTs v = False"

section \<open>Properties of the tensor-parallel convolution\<close>

lemma is_supported_cases:
  fixes input_size kernel_size strd pad dil :: "int list"
  assumes "length input_size = 4" and "length kernel_size = 4" and "length strd = 2"
      and "length pad = 2" and "length dil = 2"
      and "pad ! 1 = 0 \<longrightarrow> strd ! 1 \<noteq> 0"
  shows "is_supported input_size kernel_size strd pad dil =
     (if dil ! 1 \<noteq> 1 then Inl (RuntimeError msg_dilation)
      else if pad ! 1 \<noteq> 0 \<and> strd ! 1 \<noteq> 1 then Inl (RuntimeError msg_stride)
      else if pad ! 1 \<noteq> 0 \<and> kernel_size ! 3 div 2 > input_size ! 3
        then Inl (RuntimeError msg_kernel)
      else if pad ! 1 = 0 \<and>
              (input_size ! 3 mod strd ! 1 \<noteq> 0 \<or> strd ! 1 \<noteq> kernel_size ! 3)
        then Inl (RuntimeError msg_divisible)
      else Inr True)"
  using assms by (auto simp add: is_supported_def bindE_def idx_def py_mod_def)

lemma tp_convolution_dilation:
  assumes "op_key op_call = conv_key" and "dilation a = [2, 2]"
  shows "tp_convolution op_call rank wsize net a kw = (Inl (RuntimeError msg_dilation), [])"
  using assms by (simp add: tp_convolution_def is_supported_def bindE_def idx_def)

text \<open>
  Claim C5, as stated, fails when the padding is zero and \<open>stride[1]\<close> is zero: the
  remainder \<open>input_size[3] % stride[1]\<close> raises a \<open>ZeroDivisionError\<close> before any
  \<open>RuntimeError\<close> is raised.
\<close>

theorem C5_zero_stride_counterexample:
  "is_supported [1, 1, 4, 4] [1, 1, 3, 3] [1, 0] [0, 0] [1, 1] = Inl ZeroDivisionError"
  by (simp add: is_supported_def bindE_def idx_def py_mod_def)

text \<open>
  Claim C5, amended: on the sizes of four-dimensional tensors and two-dimensional
  hyperparameters, with \<open>stride[1]\<close> non-zero when the padding is zero, \<open>_is_supported\<close>
  raises a \<open>RuntimeError\<close> exactly when a precondition is violated, with the message of the
  first violated precondition in the order: dilation is not 1; padding is non-zero and stride
  is not 1; padding is non-zero and half the kernel width exceeds the local spatial extent;
  padding is zero and the local spatial extent is not a multiple of the stride or the stride
  differs from the kernel width. Otherwise it returns \<open>True\<close>. And \<open>tp_convolution\<close> called
  with dilation \<open>(2, 2)\<close> raises the "Dilation must be 1" error without having issued any
  point-to-point request.
\<close>

theorem C5_is_supported_raises_exactly:
  fixes input_size kernel_size strd pad dil :: "int list"
  assumes "length input_size = 4" and "length kernel_size = 4" and "length strd = 2"
      and "length pad = 2" and "length dil = 2"
      and "pad ! 1 = 0 \<longrightarrow> strd ! 1 \<noteq> 0"
  shows "is_supported input_size kernel_size strd pad dil =
     (if dil ! 1 \<noteq> 1 then Inl (RuntimeError msg_dilation)
      else if pad ! 1 \<noteq> 0 \<and> strd ! 1 \<noteq> 1 then Inl (RuntimeError msg_stride)
      else if pad ! 1 \<noteq> 0 \<and> kernel_size ! 3 div 2 > input_size ! 3
        then Inl (RuntimeError msg_kernel)
      else if pad ! 1 = 0 \<and>
              (input_size ! 3 mod strd ! 1 \<noteq> 0 \<or> strd ! 1 \<noteq> kernel_size ! 3)
        then Inl (RuntimeError msg_divisible)
      else Inr True)
   \<and> (op_key op_call = conv_key \<and> dilation a = [2, 2] \<longrightarrow>
        tp_convolution op_call rank wsize net a kw = (Inl (RuntimeError msg_dilation), []))"
  using is_supported_cases[OF assms] tp_convolution_dilation[of op_call a rank wsize net kw]
  by blast

theorem C5_is_supported_raises_exactly_witness:
  "is_supported [1, 1, 4, 4] [1, 1, 3, 3] [2, 2] [0, 0] [1, 1] = Inl (RuntimeError msg_divisible)
   \<and> is_supported [1, 1, 4, 4] [1, 1, 3, 3] [1, 1] [1, 1] [1, 1] = Inr True
   \<and> tp_convolution aten_convolution 0 2 no_net
        ((row_args [1, 2] [1, 2, 3] 1)\<lparr>dilation := [2, 2]\<rparr>) ()
      = (Inl (RuntimeError msg_dilation), [])"
  using C5_is_supported_raises_exactly[of "[1, 1, 4, 4]" "[1, 1, 3, 3]" "[2, 2]" "[0, 0]" "[1, 1]"
          "aten_convolution :: ((int, int list) conv_args, unit, int tensor) OpOverload"
          "(row_args [1, 2] [1, 2, 3] 1)\<lparr>dilation := [2, 2]\<rparr>" 0 2 no_net "()"]
        C5_is_supported_raises_exactly[of "[1, 1, 4, 4]" "[1, 1, 3, 3]" "[1, 1]" "[1, 1]" "[1, 1]"
          "aten_convolution :: ((int, int list) conv_args, unit, int tensor) OpOverload"
          "(row_args [1, 2] [1, 2, 3] 1)\<lparr>dilation := [2, 2]\<rparr>" 0 2 no_net "()"]
  by (simp add: aten_convolution_def)

lemma halo_requests_peers:
  "map peer (halo_requests rank wsize send_to_right send_to_left) =
     [(rank + 1) mod wsize, (rank - 1 + wsize) mod wsize,
      (rank - 1 + wsize) mod wsize, (rank + 1) mod wsize]"
  by (simp add: halo_requests_def Let_def)

lemma tp_convolution_without_exchange:
  assumes "op_key op_call = conv_key"
      and "is_supported (shape (in_tensor a)) (shape (weight a)) (stride a) (padding a)
             (dilation a) = Inr True"
      and "requires_data_exchange (padding a) = Inr False"
  shows "tp_convolution op_call rank wsize net a kw = (op_run op_call a kw, [])"
  using assms by (simp add: tp_convolution_def)

lemma tp_convolution_requests:
  assumes "op_key op_call = conv_key"
      and "is_supported (shape (in_tensor a)) (shape (weight a)) (stride a) (padding a)
             (dilation a) = Inr True"
      and "requires_data_exchange (padding a) = Inr True"
  shows "map peer (snd (tp_convolution op_call rank wsize net a kw)) =
     [(rank + 1) mod wsize, (rank - 1 + wsize) mod wsize,
      (rank - 1 + wsize) mod wsize, (rank + 1) mod wsize]"
  using assms by (simp add: tp_convolution_def halo_requests_peers Let_def)

text \<open>
  Claim C4, as stated, fails for a supported input with non-zero padding: at world size 1,
  rank 0 is its own left and right neighbour, issues the four requests to itself, appends the
  halo it receives, and returns a result that differs from the plain local convolution.
\<close>

theorem C4_world_size_one_counterexample:
  "is_supported (shape (in_tensor (row_args [1, 2, 3, 4] [1, 2, 3] 1)))
     (shape (weight (row_args [1, 2, 3, 4] [1, 2, 3] 1))) [1, 1] [0, 1] [1, 1] = Inr True
   \<and> tp_convolution_world aten_convolution [row_args [1, 2, 3, 4] [1, 2, 3] 1] ()
       = [Inr [[[[8, 14, 20, 14]]]]]
   \<and> aten_convolution_run (row_args [1, 2, 3, 4] [1, 2, 3] 1) () = Inr [[[[8, 14, 20, 11]]]]
   \<and> snd (tp_convolution aten_convolution 0 1 no_net (row_args [1, 2, 3, 4] [1, 2, 3] 1) ())
       = [isend [[[[4]]]] 0, isend [[[[1]]]] 0, irecv [[[[0]]]] 0, irecv [[[[0]]]] 0]"
  by code_simp

text \<open>
  Claim C4, amended: for every input that satisfies the preconditions and has
  \<open>padding[1] = 0\<close> (so that \<open>_requires_data_exchange\<close> is false), at world size 1 and at
  every other world size, \<open>tp_convolution\<close> returns exactly what the underlying operator
  returns on the unchanged local arguments and issues no point-to-point request. With
  non-zero padding the four requests are issued at every world size, 1 included.
\<close>

theorem C4_no_exchange_without_padding:
  assumes "op_key op_call = conv_key"
      and "is_supported (shape (in_tensor a)) (shape (weight a)) (stride a) (padding a)
             (dilation a) = Inr True"
  shows "(requires_data_exchange (padding a) = Inr False \<longrightarrow>
            tp_convolution op_call rank wsize net a kw = (op_run op_call a kw, []))
       \<and> (requires_data_exchange (padding a) = Inr True \<longrightarrow>
            length (snd (tp_convolution op_call rank wsize net a kw)) = 4)"
proof (intro conjI impI)
  assume "requires_data_exchange (padding a) = Inr False"
  with assms show "tp_convolution op_call rank wsize net a kw = (op_run op_call a kw, [])"
    by (rule tp_convolution_without_exchange)
next
  assume "requires_data_exchange (padding a) = Inr True"
  with assms have
    "length (map peer (snd (tp_convolution op_call rank wsize net a kw))) = 4"
    by (simp add: tp_convolution_requests)
  then show "length (snd (tp_convolution op_call rank wsize net a kw)) = 4"
    by simp
qed

theorem C4_no_exchange_without_padding_witness:
  "tp_convolution aten_convolution 0 1 no_net (row_args [1, 2, 3, 4] [2] 0) ()
     = (aten_convolution_run (row_args [1, 2, 3, 4] [2] 0) (), [])
   \<and> length (snd (tp_convolution aten_convolution 0 1 no_net
                     (row_args [1, 2, 3, 4] [1, 2, 3] 1) ())) = 4"
  using C4_no_exchange_without_padding[of
          "aten_convolution :: ((int, int list) conv_args, unit, int tensor) OpOverload"
          "row_args [1, 2, 3, 4] [2] 0" 0 1 no_net "()"]
        C4_no_exchange_without_padding[of
          "aten_convolution :: ((int, int list) conv_args, unit, int tensor) OpOverload"
          "row_args [1, 2, 3, 4] [1, 2, 3] 1" 0 1 no_net "()"]
  by (simp add: aten_convolution_def row_args_def is_supported_def requires_data_exchange_def
        shape_def first_of_def idx_def bindE_def py_mod_def)

text \<open>
  Claim C2 at a supported input with an even kernel: world size 2, the input row
  \<open>[1, 2, 3, 4]\<close> sharded as \<open>[1, 2]\<close> and \<open>[3, 4]\<close>, kernel row \<open>[1, 1]\<close>, padding 1.
  Here \<open>d1 = 0\<close>, and the slice \<open>in_tensor[:, :, :, -d1:]\<close> sent to the right is the whole
  shard instead of no column. Rank 1 returns four columns, and the results of the two ranks
  together are not the five columns of the convolution of the gathered input.
\<close>

theorem C2_even_kernel_mismatch:
  "is_supported (shape (in_tensor (row_args [3, 4] [1, 1] 1)))
     (shape (weight (row_args [3, 4] [1, 1] 1))) [1, 1] [0, 1] [1, 1] = Inr True
   \<and> tp_convolution_world aten_convolution
        [row_args [1, 2] [1, 1] 1, row_args [3, 4] [1, 1] 1] ()
       = [Inr [[[[1, 3, 5]]]], Inr [[[[3, 5, 7, 4]]]]]
   \<and> aten_convolution_run (row_args [1, 2, 3, 4] [1, 1] 1) () = Inr [[[[1, 3, 5, 7, 4]]]]"
  by code_simp

lemma halo_requests_kinds:
  "map (\<lambda>op. (is_send op, peer op)) (halo_requests rank wsize send_to_right send_to_left) =
     [(True, (rank + 1) mod wsize), (True, (rank - 1 + wsize) mod wsize),
      (False, (rank - 1 + wsize) mod wsize), (False, (rank + 1) mod wsize)]"
  by (simp add: halo_requests_def Let_def)

lemma tp_convolution_request_list:
  assumes "op_key op_call = conv_key"
      and "is_supported (shape (in_tensor a)) (shape (weight a)) (stride a) (padding a)
             (dilation a) = Inr True"
      and "requires_data_exchange (padding a) = Inr True"
  shows "snd (tp_convolution op_call rank wsize net a kw) =
     halo_requests rank wsize
       (slice_last (Some (- ((shape (weight a) ! 3 - 1) div 2))) None (in_tensor a))
       (slice_last None (Some (shape (weight a) ! 3 - 1 - (shape (weight a) ! 3 - 1) div 2))
          (in_tensor a))"
  using assms by (simp add: tp_convolution_def Let_def)

lemma tp_convolution_backward_first_batch:
  assumes "op_key op_call = conv_backward_key"
      and "is_supported (shape (in_tensor a)) (shape (weight a)) (stride a) (padding a)
             (dilation a) = Inr True"
      and "requires_data_exchange (padding a) = Inr True"
  shows "take 4 (snd (tp_convolution_backward op_call rank wsize net a kw)) =
     halo_requests rank wsize
       (slice_last (Some (- ((shape (weight a) ! 3 - 1) div 2))) None (in_tensor a))
       (slice_last None (Some (shape (weight a) ! 3 - 1 - (shape (weight a) ! 3 - 1) div 2))
          (in_tensor a))"
  using assms
  by (simp add: tp_convolution_backward_def halo_requests_def Let_def
           split: sum.splits option.splits prod.splits)

lemma tp_convolution_backward_all_requests:
  assumes "op_key op_call = conv_backward_key"
      and "is_supported (shape (in_tensor a)) (shape (weight a)) (stride a) (padding a)
             (dilation a) = Inr True"
      and "requires_data_exchange (padding a) = Inr True"
  shows "map (\<lambda>op. (is_send op, peer op))
           (snd (tp_convolution_backward op_call rank wsize net a kw)) =
           [(True, (rank + 1) mod wsize), (True, (rank - 1 + wsize) mod wsize),
            (False, (rank - 1 + wsize) mod wsize), (False, (rank + 1) mod wsize)]
       \<or> map (\<lambda>op. (is_send op, peer op))
           (snd (tp_convolution_backward op_call rank wsize net a kw)) =
           [(True, (rank + 1) mod wsize), (True, (rank - 1 + wsize) mod wsize),
            (False, (rank - 1 + wsize) mod wsize), (False, (rank + 1) mod wsize),
            (True, (rank + 1) mod wsize), (True, (rank - 1 + wsize) mod wsize),
            (False, (rank - 1 + wsize) mod wsize), (False, (rank + 1) mod wsize)]"
  using assms
  by (simp add: tp_convolution_backward_def halo_requests_kinds Let_def
           split: sum.splits option.splits prod.splits)

lemma tp_convolution_first_rank:
  assumes "\<forall>ops. net ops 3 = net' ops 3"
  shows "fst (tp_convolution op_call 0 wsize net a kw)
       = fst (tp_convolution op_call 0 wsize net' a kw)"
  using assms
  by (simp add: tp_convolution_def reconstruct_input_def Let_def split: sum.splits bool.splits)

lemma tp_convolution_last_rank:
  assumes "\<forall>ops. net ops 2 = net' ops 2" and "wsize \<noteq> 1"
  shows "fst (tp_convolution op_call (wsize - 1) wsize net a kw)
       = fst (tp_convolution op_call (wsize - 1) wsize net' a kw)"
  using assms
  by (simp add: tp_convolution_def reconstruct_input_def Let_def split: sum.splits bool.splits)

lemma tp_convolution_backward_first_rank:
  assumes "\<forall>ops. net ops 3 = net' ops 3"
  shows "fst (tp_convolution_backward op_call 0 wsize net a kw)
       = fst (tp_convolution_backward op_call 0 wsize net' a kw)"
  using assms
  by (simp add: tp_convolution_backward_def reconstruct_input_def aggregate_edges_def Let_def
           split: sum.splits bool.splits option.splits prod.splits)

lemma tp_convolution_backward_last_rank:
  assumes "\<forall>ops. net ops 2 = net' ops 2" and "wsize \<noteq> 1"
  shows "fst (tp_convolution_backward op_call (wsize - 1) wsize net a kw)
       = fst (tp_convolution_backward op_call (wsize - 1) wsize net' a kw)"
  using assms
  by (simp add: tp_convolution_backward_def reconstruct_input_def aggregate_edges_def Let_def
           split: sum.splits bool.splits option.splits prod.splits)

text \<open>
  Claim C9, as stated, fails: at world size 4, rank 0 sends its left halo to rank 3 and
  posts a receive from rank 3, its wrap-around neighbour.
\<close>

theorem C9_edge_rank_counterexample:
  "snd (tp_convolution aten_convolution 0 4 no_net (row_args [1, 2] [1, 2, 3] 1) ()) =
     [isend [[[[2]]]] 1, isend [[[[1]]]] 3, irecv [[[[0]]]] 3, irecv [[[[0]]]] 1]"
  by code_simp

text \<open>
  Claim C9, amended: in the halo-exchange paths of \<open>tp_convolution\<close> and
  \<open>tp_convolution_backward\<close>, every rank, the edge ranks included, issues the batch of
  four requests
  \<^item> \<open>isend\<close> of the last \<open>d1\<close> columns of the input, \<open>in_tensor[:, :, :, -d1:]\<close>, to the
    right ring neighbour \<open>(rank + 1) % size\<close>,
  \<^item> \<open>isend\<close> of the first \<open>d2\<close> columns, \<open>in_tensor[:, :, :, :d2]\<close>, to the left ring
    neighbour \<open>(rank - 1 + size) % size\<close>,
  \<^item> \<open>irecv\<close> from the left neighbour into a zero buffer shaped like what is sent to the
    right,
  \<^item> \<open>irecv\<close> from the right neighbour into a zero buffer shaped like what is sent to the
    left,

  in this order, where \<open>d1 = (weight.shape[3] - 1) // 2\<close> and
  \<open>d2 = weight.shape[3] - 1 - d1\<close>. These are all the requests of \<open>tp_convolution\<close> and
  the first four of \<open>tp_convolution_backward\<close>, which issues either no further request or,
  once the local operator has returned a gradient of the input, one more batch of two sends
  and two receives with the same four peers. So rank 0 also sends to and receives from rank
  \<open>size - 1\<close>, and rank \<open>size - 1\<close> to and from rank 0. What an edge rank receives from its
  wrap-around neighbour is not used: the result on rank 0 does not depend on what is received
  from the left, and the result on rank \<open>size - 1\<close>, for a world size other than 1, does not
  depend on what is received from the right.
\<close>

theorem C9_ring_exchange_on_every_rank:
  assumes "op_key fwd = conv_key"
      and "is_supported (shape (in_tensor a)) (shape (weight a)) (stride a) (padding a)
             (dilation a) = Inr True"
      and "requires_data_exchange (padding a) = Inr True"
      and "op_key bwd = conv_backward_key"
      and "is_supported (shape (in_tensor b)) (shape (weight b)) (stride b) (padding b)
             (dilation b) = Inr True"
      and "requires_data_exchange (padding b) = Inr True"
  shows "(let d1 = (shape (weight a) ! 3 - 1) div 2;
              d2 = shape (weight a) ! 3 - 1 - d1;
              right = (rank + 1) mod wsize;
              left = (rank - 1 + wsize) mod wsize;
              send_to_right = slice_last (Some (- d1)) None (in_tensor a);
              send_to_left = slice_last None (Some d2) (in_tensor a)
          in snd (tp_convolution fwd rank wsize net a kw) =
               [isend send_to_right right, isend send_to_left left,
                irecv (zeros_like send_to_right) left, irecv (zeros_like send_to_left) right])
       \<and> (let d1 = (shape (weight b) ! 3 - 1) div 2;
              d2 = shape (weight b) ! 3 - 1 - d1;
              right = (rank + 1) mod wsize;
              left = (rank - 1 + wsize) mod wsize;
              send_to_right = slice_last (Some (- d1)) None (in_tensor b);
              send_to_left = slice_last None (Some d2) (in_tensor b)
          in take 4 (snd (tp_convolution_backward bwd rank wsize net b kw')) =
               [isend send_to_right right, isend send_to_left left,
                irecv (zeros_like send_to_right) left, irecv (zeros_like send_to_left) right])
       \<and> (map (\<lambda>op. (is_send op, peer op))
             (snd (tp_convolution_backward bwd rank wsize net b kw')) =
             [(True, (rank + 1) mod wsize), (True, (rank - 1 + wsize) mod wsize),
              (False, (rank - 1 + wsize) mod wsize), (False, (rank + 1) mod wsize)]
          \<or> map (\<lambda>op. (is_send op, peer op))
             (snd (tp_convolution_backward bwd rank wsize net b kw')) =
             [(True, (rank + 1) mod wsize), (True, (rank - 1 + wsize) mod wsize),
              (False, (rank - 1 + wsize) mod wsize), (False, (rank + 1) mod wsize),
              (True, (rank + 1) mod wsize), (True, (rank - 1 + wsize) mod wsize),
              (False, (rank - 1 + wsize) mod wsize), (False, (rank + 1) mod wsize)])
       \<and> ((\<forall>ops. net ops 3 = net' ops 3) \<longrightarrow>
            fst (tp_convolution fwd 0 wsize net a kw) = fst (tp_convolution fwd 0 wsize net' a kw)
          \<and> fst (tp_convolution_backward bwd 0 wsize net b kw')
            = fst (tp_convolution_backward bwd 0 wsize net' b kw'))
       \<and> ((\<forall>ops. net ops 2 = net' ops 2) \<and> wsize \<noteq> 1 \<longrightarrow>
            fst (tp_convolution fwd (wsize - 1) wsize net a kw)
            = fst (tp_convolution fwd (wsize - 1) wsize net' a kw)
          \<and> fst (tp_convolution_backward bwd (wsize - 1) wsize net b kw')
            = fst (tp_convolution_backward bwd (wsize - 1) wsize net' b kw'))"
proof -
  have fwd_batch:
    "snd (tp_convolution fwd rank wsize net a kw) =
       halo_requests rank wsize
         (slice_last (Some (- ((shape (weight a) ! 3 - 1) div 2))) None (in_tensor a))
         (slice_last None (Some (shape (weight a) ! 3 - 1 - (shape (weight a) ! 3 - 1) div 2))
            (in_tensor a))"
    using assms(1,2,3) by (rule tp_convolution_request_list)
  have bwd_batch:
    "take 4 (snd (tp_convolution_backward bwd rank wsize net b kw')) =
       halo_requests rank wsize
         (slice_last (Some (- ((shape (weight b) ! 3 - 1) div 2))) None (in_tensor b))
         (slice_last None (Some (shape (weight b) ! 3 - 1 - (shape (weight b) ! 3 - 1) div 2))
            (in_tensor b))"
    using assms(4,5,6) by (rule tp_convolution_backward_first_batch)
  show ?thesis
    unfolding Let_def fwd_batch bwd_batch
    using tp_convolution_backward_all_requests[OF assms(4,5,6), of rank wsize net kw']
          tp_convolution_first_rank[of net net' fwd wsize a kw]
          tp_convolution_backward_first_rank[of net net' bwd wsize b kw']
          tp_convolution_last_rank[of net net' wsize fwd a kw]
          tp_convolution_backward_last_rank[of net net' wsize bwd b kw']
    by (simp add: halo_requests_def Let_def)
qed

lemma ex_row_halo:
  "shape (weight (row_args [1, 2] [1, 2, 3] 1)) ! 3 = 3
   \<and> slice_last (Some (- 1)) None (in_tensor (row_args [1, 2] [1, 2, 3] 1)) = [[[[2]]]]
   \<and> slice_last None (Some 1) (in_tensor (row_args [1, 2] [1, 2, 3] 1)) = [[[[1]]]]
   \<and> shape (weight (row_backward_args [1, 2] [5, 6] [1, 2, 3] 1)) ! 3 = 3
   \<and> slice_last (Some (- 1)) None (in_tensor (row_backward_args [1, 2] [5, 6] [1, 2, 3] 1))
     = [[[[6]]]]
   \<and> slice_last None (Some 1) (in_tensor (row_backward_args [1, 2] [5, 6] [1, 2, 3] 1))
     = [[[[5]]]]
   \<and> zeros_like [[[[2::int]]]] = [[[[0]]]] \<and> zeros_like [[[[1::int]]]] = [[[[0]]]]
   \<and> zeros_like [[[[6::int]]]] = [[[[0]]]] \<and> zeros_like [[[[5::int]]]] = [[[[0]]]]"
  by code_simp

theorem C9_ring_exchange_on_every_rank_witness:
  "snd (tp_convolution aten_convolution 3 4 no_net (row_args [1, 2] [1, 2, 3] 1) ())
     = [isend [[[[2]]]] 0, isend [[[[1]]]] 2, irecv [[[[0]]]] 2, irecv [[[[0]]]] 0]
   \<and> take 4 (snd (tp_convolution_backward echo_backward 0 4 no_net
                    (row_backward_args [1, 2] [5, 6] [1, 2, 3] 1) ()))
     = [isend [[[[6]]]] 1, isend [[[[5]]]] 3, irecv [[[[0]]]] 3, irecv [[[[0]]]] 1]
   \<and> fst (tp_convolution aten_convolution 0 4 no_net (row_args [1, 2] [1, 2, 3] 1) ())
     = fst (tp_convolution aten_convolution 0 4 left_noise_net (row_args [1, 2] [1, 2, 3] 1) ())
   \<and> fst (tp_convolution_backward echo_backward 0 4 no_net
             (row_backward_args [1, 2] [5, 6] [1, 2, 3] 1) ())
     = fst (tp_convolution_backward echo_backward 0 4 left_noise_net
             (row_backward_args [1, 2] [5, 6] [1, 2, 3] 1) ())
   \<and> fst (tp_convolution aten_convolution 3 4 no_net (row_args [1, 2] [1, 2, 3] 1) ())
     = fst (tp_convolution aten_convolution 3 4 right_noise_net (row_args [1, 2] [1, 2, 3] 1) ())
   \<and> fst (tp_convolution_backward echo_backward 3 4 no_net
             (row_backward_args [1, 2] [5, 6] [1, 2, 3] 1) ())
     = fst (tp_convolution_backward echo_backward 3 4 right_noise_net
             (row_backward_args [1, 2] [5, 6] [1, 2, 3] 1) ())"
proof -
  have sup_a:
    "is_supported (shape (in_tensor (row_args [1, 2] [1, 2, 3] 1)))
       (shape (weight (row_args [1, 2] [1, 2, 3] 1))) (stride (row_args [1, 2] [1, 2, 3] 1))
       (padding (row_args [1, 2] [1, 2, 3] 1)) (dilation (row_args [1, 2] [1, 2, 3] 1))
     = Inr True"
    by code_simp
  have exch_a: "requires_data_exchange (padding (row_args [1, 2] [1, 2, 3] 1)) = Inr True"
    by code_simp
  have sup_b:
    "is_supported (shape (in_tensor (row_backward_args [1, 2] [5, 6] [1, 2, 3] 1)))
       (shape (weight (row_backward_args [1, 2] [5, 6] [1, 2, 3] 1)))
       (stride (row_backward_args [1, 2] [5, 6] [1, 2, 3] 1))
       (padding (row_backward_args [1, 2] [5, 6] [1, 2, 3] 1))
       (dilation (row_backward_args [1, 2] [5, 6] [1, 2, 3] 1)) = Inr True"
    by code_simp
  have exch_b:
    "requires_data_exchange (padding (row_backward_args [1, 2] [5, 6] [1, 2, 3] 1)) = Inr True"
    by code_simp
  have key_a:
    "op_key (aten_convolution :: ((int, int list) conv_args, unit, int tensor) OpOverload)
     = conv_key"
    by (simp add: aten_convolution_def)
  have key_b: "op_key echo_backward = conv_backward_key"
    by (simp add: echo_backward_def)
  note at_last = C9_ring_exchange_on_every_rank[where
      fwd = "aten_convolution :: ((int, int list) conv_args, unit, int tensor) OpOverload"
      and a = "row_args [1, 2] [1, 2, 3] 1" and bwd = echo_backward
      and b = "row_backward_args [1, 2] [5, 6] [1, 2, 3] 1" and rank = 3 and wsize = 4
      and net = no_net and net' = right_noise_net and kw = "()" and kw' = "()",
      OF key_a sup_a exch_a key_b sup_b exch_b]
  note at_first = C9_ring_exchange_on_every_rank[where
      fwd = "aten_convolution :: ((int, int list) conv_args, unit, int tensor) OpOverload"
      and a = "row_args [1, 2] [1, 2, 3] 1" and bwd = echo_backward
      and b = "row_backward_args [1, 2] [5, 6] [1, 2, 3] 1" and rank = 0 and wsize = 4
      and net = no_net and net' = left_noise_net and kw = "()" and kw' = "()",
      OF key_a sup_a exch_a key_b sup_b exch_b]
  show ?thesis
    using at_last at_first
    by (simp add: ex_row_halo Let_def left_noise_net_def right_noise_net_def)
qed

section \<open>Properties of the propagation driver\<close>








section \<open>Properties of the dispatcher\<close>

lemma operator_dispatch_local_run:
  assumes "op_key op_call \<noteq> reshape_alias_key"
      and "custom_dispatch_ops (op_key op_call) = None"
      and "fst (propagate_input_sharding env op_call args kwargs h op_to_rules)
             = Inr (target_schema, redistribute, Some output_sharding)"
      and "pack_args_kwargs_with_local_tensor env h (TupleV args)
             (TupleV (args_schema target_schema)) redistribute = Inr local_tensor_args"
      and "pack_args_kwargs_with_local_tensor env h (DictV kwargs)
             (DictV (kwargs_schema target_schema)) redistribute = Inr local_tensor_kwargs"
      and "call_local op_call local_tensor_args local_tensor_kwargs = Inr local_results"
  shows "operator_dispatch env op_call args kwargs h op_to_rules custom_dispatch_ops =
     (if is_inplace target_schema then
        (case idx args 0 of
           Inl e \<Rightarrow> (Inl e, h)
         | Inr self \<Rightarrow>
             (case assign_spec self (output_spec output_sharding) h of
                Inl e \<Rightarrow> (Inl e, h)
              | Inr h' \<Rightarrow> (Inr self, h')))
      else if is_out_variant target_schema then
        out_variant_result target_schema output_sharding kwargs h
      else wrap local_results (output_spec output_sharding) h)"
  using assms
  by (simp add: operator_dispatch_def CURRENT_DECOMPOSITION_TABLE_def bindE_def)

lemma propagate_fallback:
  assumes "fst (propagate_input_sharding env op_call args kwargs h op_to_rules)
             = Inr (target_schema, redistribute, None)"
  shows "enable_fallback env \<and> op_to_rules (op_key op_call) = None \<and> \<not> redistribute
       \<and> args_schema target_schema = map (tree_map (unwrap_schema h)) args"
  using assms
  by (auto simp add: propagate_input_sharding_def Let_def new_OpSchema_def
           split: sum.splits option.splits list.splits if_splits)

lemma operator_dispatch_fallback:
  assumes "op_key op_call \<noteq> reshape_alias_key"
      and "custom_dispatch_ops (op_key op_call) = None"
      and "fst (propagate_input_sharding env op_call args kwargs h op_to_rules)
             = Inr (target_schema, redistribute, None)"
  shows "operator_dispatch env op_call args kwargs h op_to_rules custom_dispatch_ops =
     (case op_run op_call (map (tree_map (unwrap_local_tensor h)) args)
             (map (\<lambda>(k, v). (k, tree_map (unwrap_local_tensor h) v)) kwargs) of
        Inl e \<Rightarrow> (Inl e, h)
      | Inr local_results \<Rightarrow>
          (case args_spec target_schema of
             [] \<Rightarrow> (Inl IndexError, h)
           | sp # others \<Rightarrow> wrap local_results (OneSpec sp) h))"
  using assms
  by (simp add: operator_dispatch_def CURRENT_DECOMPOSITION_TABLE_def idx_def
           split: sum.splits list.splits)

lemma out_loop_missing:
  assumes "\<exists>arg \<in> set as. is_out arg \<and> map_of kwargs (arg_name arg) = None"
  shows "\<exists>e. fst (out_loop as kwargs specs i outs h) = Inl e \<and>
           (e = IndexError \<or> e = AttributeError ''_spec'' \<or>
            (\<exists>arg \<in> set as. is_out arg \<and> map_of kwargs (arg_name arg) = None
                \<and> e = KeyError (arg_name arg)))"
  using assms
proof (induction as arbitrary: i outs h)
  case Nil
  then show ?case by simp
next
  case (Cons arg as)
  show ?case
  proof (cases "is_out arg")
    case False
    with Cons.prems have "\<exists>arg \<in> set as. is_out arg \<and> map_of kwargs (arg_name arg) = None"
      by auto
    from Cons.IH[OF this, of i outs h] False show ?thesis by auto
  next
    case True
    show ?thesis
    proof (cases "map_of kwargs (arg_name arg)")
      case None
      with True show ?thesis by auto
    next
      case (Some out_dt)
      with True Cons.prems
      have rest: "\<exists>arg \<in> set as. is_out arg \<and> map_of kwargs (arg_name arg) = None"
        by auto
      show ?thesis
      proof (cases "idx specs i")
        case (Inl e)
        with True Some show ?thesis by (auto simp: idx_def split: if_splits)
      next
        case (Inr sp)
        show ?thesis
        proof (cases "assign_spec out_dt sp h")
          case (Inl e)
          then have "e = AttributeError ''_spec''"
            by (cases out_dt) auto
          with True Some Inr Inl show ?thesis by auto
        next
          case (Inr h')
          from Cons.IH[OF rest, of "Suc i" "outs @ [out_dt]" h'] True Some \<open>idx specs i = Inr sp\<close> Inr
          show ?thesis by auto
        qed
      qed
    qed
  qed
qed

lemma out_loop_no_out:
  assumes "\<forall>arg \<in> set as. \<not> is_out arg"
  shows "out_loop as kwargs specs i outs h = (Inr outs, h)"
  using assms by (induction as) auto

lemma assign_spec_takes:
  assumes "takes_spec v"
  shows "assign_spec v sp h = Inr (assign_all [(v, sp)] h)"
  using assms by (cases v) simp_all

lemma assign_spec_Inr:
  assumes "assign_spec v sp h = Inr h'"
  shows "takes_spec v"
  using assms by (cases v) simp_all

lemma assign_all_Cons:
  "assign_all ((v, sp) # r) h = assign_all r (assign_all [(v, sp)] h)"
  by (cases v) simp_all

lemma is_DT_iff:
  "is_DT v \<longleftrightarrow> (\<exists>a. v = DT a)"
  by (cases v) simp_all

lemma out_loop_ok:
  assumes "\<forall>arg \<in> set as. is_out arg \<longrightarrow>
             (\<exists>v. map_of kwargs (arg_name arg) = Some v \<and> takes_spec v)"
      and "i + length (filter is_out as) \<le> length specs"
  shows "out_loop as kwargs specs i outs h =
     (Inr (outs @ map (\<lambda>arg. the (map_of kwargs (arg_name arg))) (filter is_out as)),
      assign_all (zip (map (\<lambda>arg. the (map_of kwargs (arg_name arg))) (filter is_out as))
                      (drop i specs)) h)"
  using assms
proof (induction as arbitrary: i outs h)
  case Nil
  then show ?case by simp
next
  case (Cons arg as)
  show ?case
  proof (cases "is_out arg")
    case False
    with Cons show ?thesis by simp
  next
    case True
    with Cons.prems obtain v where v: "map_of kwargs (arg_name arg) = Some v"
      and tv: "takes_spec v" by auto
    from True Cons.prems have i: "i < length specs" and
      i': "Suc i + length (filter is_out as) \<le> length specs" by auto
    have d: "drop i specs = specs ! i # drop (Suc i) specs"
      using i by (simp add: Cons_nth_drop_Suc)
    from Cons.prems have rest: "\<forall>arg \<in> set as. is_out arg \<longrightarrow>
        (\<exists>v. map_of kwargs (arg_name arg) = Some v \<and> takes_spec v)"
      by auto
    have step: "out_loop (arg # as) kwargs specs i outs h
        = out_loop as kwargs specs (Suc i) (outs @ [v]) (assign_all [(v, specs ! i)] h)"
      using True v i assign_spec_takes[OF tv, of "specs ! i" h] by (simp add: idx_def)
    have heap: "assign_all (zip (map (\<lambda>arg. the (map_of kwargs (arg_name arg)))
                                  (filter is_out (arg # as))) (drop i specs)) h
        = assign_all (zip (map (\<lambda>arg. the (map_of kwargs (arg_name arg))) (filter is_out as))
                          (drop (Suc i) specs)) (assign_all [(v, specs ! i)] h)"
      using True v d
        assign_all_Cons[of v "specs ! i"
          "zip (map (\<lambda>arg. the (map_of kwargs (arg_name arg))) (filter is_out as))
               (drop (Suc i) specs)" h]
      by simp
    from Cons.IH[OF rest i', of "outs @ [v]" "assign_all [(v, specs ! i)] h"] True v
    show ?thesis unfolding step heap by simp
  qed
qed

lemma out_loop_returns:
  assumes "fst (out_loop as kwargs specs i outs h) = Inr r"
      and "i \<le> length specs"
  shows "(\<forall>arg \<in> set as. is_out arg \<longrightarrow>
             (\<exists>v. map_of kwargs (arg_name arg) = Some v \<and> takes_spec v))
       \<and> i + length (filter is_out as) \<le> length specs"
  using assms
proof (induction as arbitrary: i outs h)
  case Nil
  then show ?case by simp
next
  case (Cons arg as)
  show ?case
  proof (cases "is_out arg")
    case False
    with Cons.prems have "fst (out_loop as kwargs specs i outs h) = Inr r" by simp
    from Cons.IH[OF this Cons.prems(2)] False show ?thesis by simp
  next
    case True
    from True Cons.prems obtain v where v: "map_of kwargs (arg_name arg) = Some v"
      by (cases "map_of kwargs (arg_name arg)") simp_all
    from True Cons.prems v have i: "i < length specs"
      by (cases "i < length specs") (simp_all add: idx_def)
    from True Cons.prems v i obtain h' where h': "assign_spec v (specs ! i) h = Inr h'"
      by (cases "assign_spec v (specs ! i) h") (simp_all add: idx_def)
    from True Cons.prems v i h'
    have "fst (out_loop as kwargs specs (Suc i) (outs @ [v]) h') = Inr r"
      by (simp add: idx_def)
    moreover from i have "Suc i \<le> length specs" by simp
    ultimately show ?thesis
      using Cons.IH[of "Suc i" "outs @ [v]" h'] True v assign_spec_Inr[OF h'] by simp
  qed
qed

text \<open>
  Claim C8: when the operator is neither decomposed nor overridden and propagation returns
  no output sharding, which happens only with the fallback flag enabled and no rule
  registered for the operator, \<open>operator_dispatch\<close> unwraps every distributed tensor among
  the arguments and keyword arguments to its local shard, calls the operator on them, and
  wraps the raw result with the first descriptor among the positional arguments of the
  target schema (\<open>target_schema.args_spec[0]\<close>), which is the schema of the unwrapped
  arguments. An exception of the operator is passed on, and a call without a distributed
  tensor among its positional arguments raises an \<open>IndexError\<close> after the operator has
  run.
\<close>

theorem C8_local_tensor_fallback:
  assumes "op_key op_call \<noteq> reshape_alias_key"
      and "custom_dispatch_ops (op_key op_call) = None"
      and "fst (propagate_input_sharding env op_call args kwargs h op_to_rules)
             = Inr (target_schema, redistribute, None)"
  shows "enable_fallback env \<and> op_to_rules (op_key op_call) = None
       \<and> args_schema target_schema = map (tree_map (unwrap_schema h)) args
       \<and> operator_dispatch env op_call args kwargs h op_to_rules custom_dispatch_ops =
           (case op_run op_call (map (tree_map (unwrap_local_tensor h)) args)
                   (map (\<lambda>(k, v). (k, tree_map (unwrap_local_tensor h) v)) kwargs) of
              Inl e \<Rightarrow> (Inl e, h)
            | Inr local_results \<Rightarrow>
                (case args_spec target_schema of
                   [] \<Rightarrow> (Inl IndexError, h)
                 | sp # others \<Rightarrow> wrap local_results (OneSpec sp) h))"
  using propagate_fallback[OF assms(3)]
        operator_dispatch_fallback[where op_call = op_call
          and custom_dispatch_ops = custom_dispatch_ops and env = env and args = args
          and kwargs = kwargs and h = h and op_to_rules = op_to_rules
          and target_schema = target_schema and redistribute = redistribute]
        assms
  by blast

theorem C8_local_tensor_fallback_witness:
  "operator_dispatch (ex_env\<lparr>enable_fallback := True\<rparr>) add_op [DT 0, DT 1] [] ex_heap
     Map.empty Map.empty
   = (Inr (DT 10),
      ex_heap\<lparr>objects := (objects ex_heap)
                  (10 := \<lparr>local_tensor = 99, spec = OneSpec (ex_spec [Shard 0] [8, 8])\<rparr>),
               fresh := 11\<rparr>)"
  using C8_local_tensor_fallback[where op_call = add_op and env = "ex_env\<lparr>enable_fallback := True\<rparr>"
          and args = "[DT 0, DT 1]" and kwargs = "[]" and h = ex_heap
          and op_to_rules = Map.empty and custom_dispatch_ops = Map.empty
          and target_schema = add_schema and redistribute = False]
  by (simp add: propagate_input_sharding_def add_op_def ex_op_def new_OpSchema_def ex_heap_def
        add_schema_def ex_env_def reshape_alias_key_def args_spec_def new_DTensor_def Let_def)

lemma set_spec_frame:
  "fresh (set_spec a sp h) = fresh h
   \<and> spec (objects (set_spec a sp h) a) = sp
   \<and> local_tensor (objects (set_spec a sp h) a) = local_tensor (objects h a)
   \<and> (\<forall>b. b \<noteq> a \<longrightarrow> objects (set_spec a sp h) b = objects h b)"
  by (simp add: set_spec_def)

text \<open>
  Claim C7: when an operator that is neither decomposed nor overridden is dispatched,
  propagation yields an output sharding for a target schema with \<open>is_inplace\<close>, and the
  local computation succeeds, \<open>operator_dispatch\<close> returns the very object passed as
  first positional argument, a distributed tensor at address \<open>a\<close>. In the heap no wrapper
  has been constructed, the descriptor of that object is the propagated output spec, its
  local tensor is the one it had, and every other object is as it was.
\<close>

theorem C7_inplace_identity:
  assumes "op_key op_call \<noteq> reshape_alias_key"
      and "custom_dispatch_ops (op_key op_call) = None"
      and "fst (propagate_input_sharding env op_call args kwargs h op_to_rules)
             = Inr (target_schema, redistribute, Some output_sharding)"
      and "pack_args_kwargs_with_local_tensor env h (TupleV args)
             (TupleV (args_schema target_schema)) redistribute = Inr local_tensor_args"
      and "pack_args_kwargs_with_local_tensor env h (DictV kwargs)
             (DictV (kwargs_schema target_schema)) redistribute = Inr local_tensor_kwargs"
      and "call_local op_call local_tensor_args local_tensor_kwargs = Inr local_results"
      and "is_inplace target_schema"
      and "args = DT a # rest"
  shows "operator_dispatch env op_call args kwargs h op_to_rules custom_dispatch_ops
           = (Inr (DT a), set_spec a (output_spec output_sharding) h)
       \<and> fresh (set_spec a (output_spec output_sharding) h) = fresh h
       \<and> spec (objects (set_spec a (output_spec output_sharding) h) a)
           = output_spec output_sharding
       \<and> local_tensor (objects (set_spec a (output_spec output_sharding) h) a)
           = local_tensor (objects h a)
       \<and> (\<forall>b. b \<noteq> a \<longrightarrow>
             objects (set_spec a (output_spec output_sharding) h) b = objects h b)"
proof -
  have "operator_dispatch env op_call args kwargs h op_to_rules custom_dispatch_ops
          = (Inr (DT a), set_spec a (output_spec output_sharding) h)"
    using operator_dispatch_local_run[where op_call = op_call
            and custom_dispatch_ops = custom_dispatch_ops and env = env and args = args
            and kwargs = kwargs and h = h and op_to_rules = op_to_rules
            and target_schema = target_schema and redistribute = redistribute
            and output_sharding = output_sharding and local_tensor_args = local_tensor_args
            and local_tensor_kwargs = local_tensor_kwargs and local_results = local_results]
          assms
    by (simp add: idx_def)
  then show ?thesis
    using set_spec_frame[of a "output_spec output_sharding" h] by simp
qed

theorem C7_inplace_identity_witness:
  "operator_dispatch ex_env add_inplace_op [DT 0, DT 1] [] ex_heap
     [''aten.add_.Tensor'' \<mapsto> resolving_rule] Map.empty
   = (Inr (DT 0), set_spec 0 (OneSpec (ex_spec [Replicate] [8, 8])) ex_heap)
   \<and> fresh (set_spec 0 (OneSpec (ex_spec [Replicate] [8, 8])) ex_heap) = 10
   \<and> spec (objects (set_spec 0 (OneSpec (ex_spec [Replicate] [8, 8])) ex_heap) 0)
       = OneSpec (ex_spec [Replicate] [8, 8])
   \<and> local_tensor (objects (set_spec 0 (OneSpec (ex_spec [Replicate] [8, 8])) ex_heap) 0) = 100
   \<and> objects (set_spec 0 (OneSpec (ex_spec [Replicate] [8, 8])) ex_heap) 1 = objects ex_heap 1"
  using C7_inplace_identity[where op_call = add_inplace_op and env = ex_env
          and args = "[DT 0, DT 1]" and kwargs = "[]" and h = ex_heap
          and op_to_rules = "[''aten.add_.Tensor'' \<mapsto> resolving_rule]"
          and custom_dispatch_ops = Map.empty
          and target_schema = "add_schema\<lparr>func_schema := op_sig add_inplace_op, is_inplace := True\<rparr>"
          and redistribute = False
          and output_sharding = "\<lparr>output_spec = OneSpec (ex_spec [Replicate] [8, 8]),
                schema_suggestions = None, failed_reason = None\<rparr>"
          and local_tensor_args = "TupleV [LT 100, LT 101]" and local_tensor_kwargs = "DictV []"
          and local_results = "LT 99" and a = 0 and rest = "[DT 1]"]
  by (simp add: propagate_input_sharding_def add_inplace_op_def add_op_def ex_op_def
        new_OpSchema_def ex_heap_def add_schema_def reshape_alias_key_def resolving_rule_def
        pack_args_kwargs_with_local_tensor_def tree_unflatten_def bindE_def Let_def)

lemma out_variant_result_missing:
  assumes "\<exists>arg \<in> set (arguments (func_schema target_schema)).
             is_out arg \<and> map_of kwargs (arg_name arg) = None"
  shows "\<exists>e. fst (out_variant_result target_schema output_sharding kwargs h) = Inl e \<and>
           (e = IndexError \<or> e = AttributeError ''_spec'' \<or>
            (\<exists>arg \<in> set (arguments (func_schema target_schema)).
                is_out arg \<and> map_of kwargs (arg_name arg) = None \<and> e = KeyError (arg_name arg)))"
proof -
  from out_loop_missing[OF assms, of "output_specs_of (output_spec output_sharding)" 0 "[]" h]
  obtain e where e: "fst (out_loop (arguments (func_schema target_schema)) kwargs
        (output_specs_of (output_spec output_sharding)) 0 [] h) = Inl e"
    and c: "e = IndexError \<or> e = AttributeError ''_spec'' \<or>
            (\<exists>arg \<in> set (arguments (func_schema target_schema)).
                is_out arg \<and> map_of kwargs (arg_name arg) = None \<and> e = KeyError (arg_name arg))"
    by blast
  from e have "fst (out_variant_result target_schema output_sharding kwargs h) = Inl e"
    by (cases "out_loop (arguments (func_schema target_schema)) kwargs
                 (output_specs_of (output_spec output_sharding)) 0 [] h")
       (simp add: out_variant_result_def)
  with c show ?thesis by blast
qed

lemma out_variant_result_no_out:
  assumes "\<forall>arg \<in> set (arguments (func_schema target_schema)). \<not> is_out arg"
  shows "out_variant_result target_schema output_sharding kwargs h
           = (Inl (AssertionError msg_out), h)"
  using out_loop_no_out[OF assms, of kwargs "output_specs_of (output_spec output_sharding)" 0 "[]" h]
  by (simp add: out_variant_result_def)

lemma out_variant_result_ok:
  assumes "\<forall>arg \<in> set (arguments (func_schema target_schema)).
             is_out arg \<longrightarrow> (\<exists>v. map_of kwargs (arg_name arg) = Some v \<and> takes_spec v)"
      and "length (filter is_out (arguments (func_schema target_schema)))
             \<le> length (output_specs_of (output_spec output_sharding))"
      and "filter is_out (arguments (func_schema target_schema)) \<noteq> []"
      and "out_dts = map (\<lambda>arg. the (map_of kwargs (arg_name arg)))
                        (filter is_out (arguments (func_schema target_schema)))"
  shows "out_variant_result target_schema output_sharding kwargs h =
           (Inr (if length out_dts > 1 then TupleV out_dts else out_dts ! 0),
            assign_all (zip out_dts (output_specs_of (output_spec output_sharding))) h)"
proof -
  have "out_loop (arguments (func_schema target_schema)) kwargs
          (output_specs_of (output_spec output_sharding)) 0 [] h
        = (Inr out_dts, assign_all (zip out_dts (output_specs_of (output_spec output_sharding))) h)"
    using out_loop_ok[OF assms(1), of 0 "output_specs_of (output_spec output_sharding)" "[]" h]
          assms(2,4)
    by simp
  moreover have "length out_dts \<ge> 1"
    using assms(3,4) by (cases "filter is_out (arguments (func_schema target_schema))") auto
  ultimately show ?thesis
    by (simp add: out_variant_result_def)
qed

lemma out_variant_result_returns:
  assumes "fst (out_variant_result target_schema output_sharding kwargs h) = Inr r"
  shows "(\<forall>arg \<in> set (arguments (func_schema target_schema)).
             is_out arg \<longrightarrow> (\<exists>v. map_of kwargs (arg_name arg) = Some v \<and> takes_spec v))
       \<and> length (filter is_out (arguments (func_schema target_schema)))
             \<le> length (output_specs_of (output_spec output_sharding))
       \<and> filter is_out (arguments (func_schema target_schema)) \<noteq> []"
proof -
  obtain res h' where loop: "out_loop (arguments (func_schema target_schema)) kwargs
          (output_specs_of (output_spec output_sharding)) 0 [] h = (res, h')"
    by (cases "out_loop (arguments (func_schema target_schema)) kwargs
          (output_specs_of (output_spec output_sharding)) 0 [] h")
  with assms obtain out_dts where res: "res = Inr out_dts" and len: "length out_dts \<ge> 1"
    by (cases res) (auto simp: out_variant_result_def split: if_splits)
  from loop res have ret: "fst (out_loop (arguments (func_schema target_schema)) kwargs
          (output_specs_of (output_spec output_sharding)) 0 [] h) = Inr out_dts"
    by simp
  have le0: "0 \<le> length (output_specs_of (output_spec output_sharding))" by simp
  note r = out_loop_returns[OF ret le0]
  from r have all: "\<forall>arg \<in> set (arguments (func_schema target_schema)).
             is_out arg \<longrightarrow> (\<exists>v. map_of kwargs (arg_name arg) = Some v \<and> takes_spec v)"
    and enough: "length (filter is_out (arguments (func_schema target_schema)))
             \<le> length (output_specs_of (output_spec output_sharding))"
    by simp_all
  from out_loop_ok[OF all, of 0 "output_specs_of (output_spec output_sharding)" "[]" h]
    enough loop res
  have "out_dts = map (\<lambda>arg. the (map_of kwargs (arg_name arg)))
                        (filter is_out (arguments (func_schema target_schema)))"
    by simp
  with len have "filter is_out (arguments (func_schema target_schema)) \<noteq> []"
    by auto
  with all enough show ?thesis by blast
qed

lemma only_DTs_result:
  assumes "list_all takes_spec vs" and "vs \<noteq> []"
  shows "only_DTs (if length vs > 1 then TupleV vs else vs ! 0) \<longleftrightarrow> list_all is_DT vs"
proof (cases vs)
  case Nil
  with assms(2) show ?thesis by simp
next
  case (Cons v rest)
  show ?thesis
  proof (cases rest)
    case Nil
    with Cons assms(1) show ?thesis by (cases v) simp_all
  next
    case (Cons w rest')
    with \<open>vs = v # rest\<close> show ?thesis by simp
  qed
qed

text \<open>
  Claim C10: when an operator that is neither decomposed nor overridden is dispatched,
  propagation yields an output sharding for a target schema that is an out variant and not
  in place, and the local computation succeeds, \<open>operator_dispatch\<close> looks every formal
  argument flagged as out up by its name in the keyword arguments, in declaration order.
  \<^item> If one of them is absent from the keyword arguments (an out tensor passed
    positionally), the dispatch raises: the \<open>KeyError\<close> of an absent out argument, unless
    an earlier out argument ran out of output specs or could not take the attribute.
  \<^item> If no formal argument is flagged as out, the assertion that at least one out argument
    was found fails.
  \<^item> The dispatcher does not check what the value of an out keyword is (its cast checks
    nothing). If there is an out argument, every out argument is among the keyword arguments
    with a value that takes the attribute \<open>_spec\<close> (a distributed tensor, but also a plain
    tensor or a descriptor) and there are enough output specs, the dispatch returns the
    keyword values as they are (the single one, or their tuple); the distributed tensors
    among them have been assigned, in order, the output specs.
  \<^item> In no other case does the dispatch return. So it is well defined, returning
    distributed tensors only, exactly under the precondition of the claim: whenever it
    returns, its result is made of distributed tensors if and only if every out argument was
    passed as a keyword argument and is a distributed tensor. An out keyword that is no
    distributed tensor makes the dispatch raise or return a value that is no distributed
    tensor.
\<close>

theorem C10_out_variant_lookup:
  assumes "op_key op_call \<noteq> reshape_alias_key"
      and "custom_dispatch_ops (op_key op_call) = None"
      and "fst (propagate_input_sharding env op_call args kwargs h op_to_rules)
             = Inr (target_schema, redistribute, Some output_sharding)"
      and "pack_args_kwargs_with_local_tensor env h (TupleV args)
             (TupleV (args_schema target_schema)) redistribute = Inr local_tensor_args"
      and "pack_args_kwargs_with_local_tensor env h (DictV kwargs)
             (DictV (kwargs_schema target_schema)) redistribute = Inr local_tensor_kwargs"
      and "call_local op_call local_tensor_args local_tensor_kwargs = Inr local_results"
      and "\<not> is_inplace target_schema"
      and "is_out_variant target_schema"
      and "outs = filter is_out (arguments (func_schema target_schema))"
      and "out_dts = map (\<lambda>arg. the (map_of kwargs (arg_name arg))) outs"
  shows "((\<exists>arg \<in> set outs. map_of kwargs (arg_name arg) = None) \<longrightarrow>
            (\<exists>e. fst (operator_dispatch env op_call args kwargs h op_to_rules custom_dispatch_ops)
                   = Inl e
                 \<and> (e = IndexError \<or> e = AttributeError ''_spec'' \<or>
                     (\<exists>arg \<in> set outs. map_of kwargs (arg_name arg) = None
                         \<and> e = KeyError (arg_name arg)))))
       \<and> (outs = [] \<longrightarrow>
            operator_dispatch env op_call args kwargs h op_to_rules custom_dispatch_ops
            = (Inl (AssertionError msg_out), h))
       \<and> ((\<forall>arg \<in> set outs. \<exists>v. map_of kwargs (arg_name arg) = Some v \<and> takes_spec v)
            \<and> length outs \<le> length (output_specs_of (output_spec output_sharding))
            \<and> outs \<noteq> [] \<longrightarrow>
            operator_dispatch env op_call args kwargs h op_to_rules custom_dispatch_ops
            = (Inr (if length out_dts > 1 then TupleV out_dts else out_dts ! 0),
               assign_all (zip out_dts (output_specs_of (output_spec output_sharding))) h))
       \<and> (fst (operator_dispatch env op_call args kwargs h op_to_rules custom_dispatch_ops)
            = Inr r \<longrightarrow>
            outs \<noteq> []
            \<and> (\<forall>arg \<in> set outs. \<exists>v. map_of kwargs (arg_name arg) = Some v \<and> takes_spec v)
            \<and> length outs \<le> length (output_specs_of (output_spec output_sharding))
            \<and> r = (if length out_dts > 1 then TupleV out_dts else out_dts ! 0)
            \<and> (only_DTs r \<longleftrightarrow>
                 (\<forall>arg \<in> set outs. \<exists>a. map_of kwargs (arg_name arg) = Some (DT a))))"
proof -
  have run: "operator_dispatch env op_call args kwargs h op_to_rules custom_dispatch_ops
          = out_variant_result target_schema output_sharding kwargs h"
    using operator_dispatch_local_run[where op_call = op_call
            and custom_dispatch_ops = custom_dispatch_ops and env = env and args = args
            and kwargs = kwargs and h = h and op_to_rules = op_to_rules
            and target_schema = target_schema and redistribute = redistribute
            and output_sharding = output_sharding and local_tensor_args = local_tensor_args
            and local_tensor_kwargs = local_tensor_kwargs and local_results = local_results]
          assms(1-8)
    by simp
  have p1: "(\<exists>arg \<in> set outs. map_of kwargs (arg_name arg) = None) \<longrightarrow>
            (\<exists>e. fst (out_variant_result target_schema output_sharding kwargs h) = Inl e
                 \<and> (e = IndexError \<or> e = AttributeError ''_spec'' \<or>
                     (\<exists>arg \<in> set outs. map_of kwargs (arg_name arg) = None
                         \<and> e = KeyError (arg_name arg))))"
  proof
    assume "\<exists>arg \<in> set outs. map_of kwargs (arg_name arg) = None"
    then have "\<exists>arg \<in> set (arguments (func_schema target_schema)).
             is_out arg \<and> map_of kwargs (arg_name arg) = None"
      using assms(9) by auto
    from out_variant_result_missing[OF this, of output_sharding h]
    show "\<exists>e. fst (out_variant_result target_schema output_sharding kwargs h) = Inl e
                 \<and> (e = IndexError \<or> e = AttributeError ''_spec'' \<or>
                     (\<exists>arg \<in> set outs. map_of kwargs (arg_name arg) = None
                         \<and> e = KeyError (arg_name arg)))"
      using assms(9) by auto
  qed
  have p2: "outs = [] \<longrightarrow> out_variant_result target_schema output_sharding kwargs h
            = (Inl (AssertionError msg_out), h)"
  proof
    assume "outs = []"
    then have "\<forall>arg \<in> set (arguments (func_schema target_schema)). \<not> is_out arg"
      using assms(9) by (simp add: filter_empty_conv)
    then show "out_variant_result target_schema output_sharding kwargs h
            = (Inl (AssertionError msg_out), h)"
      by (rule out_variant_result_no_out)
  qed
  have p3: "(\<forall>arg \<in> set outs. \<exists>v. map_of kwargs (arg_name arg) = Some v \<and> takes_spec v)
            \<and> length outs \<le> length (output_specs_of (output_spec output_sharding))
            \<and> outs \<noteq> [] \<longrightarrow>
            out_variant_result target_schema output_sharding kwargs h
            = (Inr (if length out_dts > 1 then TupleV out_dts else out_dts ! 0),
               assign_all (zip out_dts (output_specs_of (output_spec output_sharding))) h)"
  proof
    assume a: "(\<forall>arg \<in> set outs. \<exists>v. map_of kwargs (arg_name arg) = Some v \<and> takes_spec v)
            \<and> length outs \<le> length (output_specs_of (output_spec output_sharding))
            \<and> outs \<noteq> []"
    then have "\<forall>arg \<in> set (arguments (func_schema target_schema)).
             is_out arg \<longrightarrow> (\<exists>v. map_of kwargs (arg_name arg) = Some v \<and> takes_spec v)"
      using assms(9) by auto
    from out_variant_result_ok[OF this, of output_sharding out_dts h] a assms(9,10)
    show "out_variant_result target_schema output_sharding kwargs h
            = (Inr (if length out_dts > 1 then TupleV out_dts else out_dts ! 0),
               assign_all (zip out_dts (output_specs_of (output_spec output_sharding))) h)"
      by simp
  qed
  have p4: "fst (out_variant_result target_schema output_sharding kwargs h) = Inr r \<longrightarrow>
            outs \<noteq> []
            \<and> (\<forall>arg \<in> set outs. \<exists>v. map_of kwargs (arg_name arg) = Some v \<and> takes_spec v)
            \<and> length outs \<le> length (output_specs_of (output_spec output_sharding))
            \<and> r = (if length out_dts > 1 then TupleV out_dts else out_dts ! 0)
            \<and> (only_DTs r \<longleftrightarrow>
                 (\<forall>arg \<in> set outs. \<exists>a. map_of kwargs (arg_name arg) = Some (DT a)))"
  proof
    assume ret: "fst (out_variant_result target_schema output_sharding kwargs h) = Inr r"
    from out_variant_result_returns[OF ret] assms(9)
    have ne: "outs \<noteq> []"
      and all: "\<forall>arg \<in> set outs. \<exists>v. map_of kwargs (arg_name arg) = Some v \<and> takes_spec v"
      and enough: "length outs \<le> length (output_specs_of (output_spec output_sharding))"
      by auto
    from p3 ne all enough ret
    have r: "r = (if length out_dts > 1 then TupleV out_dts else out_dts ! 0)"
      by simp
    from all assms(10) have takes: "list_all takes_spec out_dts"
      by (auto simp: list_all_iff)
    from ne assms(10) have "out_dts \<noteq> []" by simp
    from only_DTs_result[OF takes this] r
    have "only_DTs r \<longleftrightarrow> list_all is_DT out_dts" by simp
    also have "list_all is_DT out_dts \<longleftrightarrow>
            (\<forall>arg \<in> set outs. \<exists>a. the (map_of kwargs (arg_name arg)) = DT a)"
      by (simp add: assms(10) list_all_iff is_DT_iff)
    also from all
    have "\<dots> \<longleftrightarrow> (\<forall>arg \<in> set outs. \<exists>a. map_of kwargs (arg_name arg) = Some (DT a))"
      by (metis option.sel)
    finally show "outs \<noteq> []
            \<and> (\<forall>arg \<in> set outs. \<exists>v. map_of kwargs (arg_name arg) = Some v \<and> takes_spec v)
            \<and> length outs \<le> length (output_specs_of (output_spec output_sharding))
            \<and> r = (if length out_dts > 1 then TupleV out_dts else out_dts ! 0)
            \<and> (only_DTs r \<longleftrightarrow>
                 (\<forall>arg \<in> set outs. \<exists>a. map_of kwargs (arg_name arg) = Some (DT a)))"
      using ne all enough r by blast
  qed
  from p1 p2 p3 p4 show ?thesis unfolding run by blast
qed

lemma ex_propagate_out:
  "fst (propagate_input_sharding ex_env add_out_op [DT 0, DT 1] [(''out'', DT 2)] ex_heap
          [''aten.add.out'' \<mapsto> resolving_rule])
   = Inr (ex_schema add_out_op [sharded, sharded] [(''out'', sharded)] False True, False,
          Some \<lparr>output_spec = OneSpec (ex_spec [Replicate] [8, 8]),
                schema_suggestions = None, failed_reason = None\<rparr>)"
  "fst (propagate_input_sharding ex_env add_out_op [DT 0, DT 1, DT 2] [] ex_heap
          [''aten.add.out'' \<mapsto> resolving_rule])
   = Inr (ex_schema add_out_op [sharded, sharded, sharded] [] False True, False,
          Some \<lparr>output_spec = OneSpec (ex_spec [Replicate] [8, 8]),
                schema_suggestions = None, failed_reason = None\<rparr>)"
  "fst (propagate_input_sharding ex_env neg_out_op [DT 0] [] ex_heap
          [''aten.neg.out'' \<mapsto> resolving_rule])
   = Inr (ex_schema neg_out_op [sharded] [] False True, False,
          Some \<lparr>output_spec = OneSpec (ex_spec [Replicate] [8, 8]),
                schema_suggestions = None, failed_reason = None\<rparr>)"
  "fst (propagate_input_sharding ex_env add_out_op [DT 0, DT 1] [(''out'', LT 7)] ex_heap
          [''aten.add.out'' \<mapsto> resolving_rule])
   = Inr (ex_schema add_out_op [sharded, sharded] [(''out'', LT 7)] False True, False,
          Some \<lparr>output_spec = OneSpec (ex_spec [Replicate] [8, 8]),
                schema_suggestions = None, failed_reason = None\<rparr>)"
  by (simp_all add: propagate_input_sharding_def add_out_op_def neg_out_op_def ex_op_def
        ex_schema_def new_OpSchema_def ex_heap_def resolving_rule_def Let_def sharded_def)

lemma ex_pack:
  "pack_args_kwargs_with_local_tensor ex_env ex_heap (TupleV [DT 0, DT 1])
     (TupleV (args_schema (ex_schema op_call [sharded, sharded] kw i v))) False
   = Inr (TupleV [LT 100, LT 101])"
  "pack_args_kwargs_with_local_tensor ex_env ex_heap (TupleV [DT 0, DT 1, DT 2])
     (TupleV (args_schema (ex_schema op_call [sharded, sharded, sharded] kw i v))) False
   = Inr (TupleV [LT 100, LT 101, LT 102])"
  "pack_args_kwargs_with_local_tensor ex_env ex_heap (TupleV [DT 0])
     (TupleV (args_schema (ex_schema op_call [sharded] kw i v))) False
   = Inr (TupleV [LT 100])"
  "pack_args_kwargs_with_local_tensor ex_env ex_heap (DictV [(''out'', DT 2)])
     (DictV (kwargs_schema (ex_schema op_call as [(''out'', sharded)] i v))) False
   = Inr (DictV [(''out'', LT 102)])"
  "pack_args_kwargs_with_local_tensor ex_env ex_heap (DictV [])
     (DictV (kwargs_schema (ex_schema op_call as [] i v))) False
   = Inr (DictV [])"
  "pack_args_kwargs_with_local_tensor ex_env ex_heap (DictV [(''out'', LT 7)])
     (DictV (kwargs_schema (ex_schema op_call as [(''out'', LT 7)] i v))) False
   = Inr (DictV [(''out'', LT 7)])"
  by (simp_all add: ex_schema_def ex_heap_def pack_args_kwargs_with_local_tensor_def
        tree_unflatten_def bindE_def sharded_def)

lemma ex_keys:
  "op_key add_out_op \<noteq> reshape_alias_key" "op_key neg_out_op \<noteq> reshape_alias_key"
  "op_key add_inplace_op \<noteq> reshape_alias_key" "op_key add_op \<noteq> reshape_alias_key"
  by (simp_all add: add_out_op_def neg_out_op_def add_inplace_op_def add_op_def ex_op_def
        reshape_alias_key_def)

theorem C10_out_variant_lookup_witness:
  "(\<exists>e. fst (operator_dispatch ex_env add_out_op [DT 0, DT 1, DT 2] [] ex_heap
              [''aten.add.out'' \<mapsto> resolving_rule] Map.empty) = Inl e
        \<and> (e = IndexError \<or> e = AttributeError ''_spec'' \<or> e = KeyError ''out''))
   \<and> operator_dispatch ex_env neg_out_op [DT 0] [] ex_heap
        [''aten.neg.out'' \<mapsto> resolving_rule] Map.empty
      = (Inl (AssertionError msg_out), ex_heap)
   \<and> operator_dispatch ex_env add_out_op [DT 0, DT 1] [(''out'', DT 2)] ex_heap
        [''aten.add.out'' \<mapsto> resolving_rule] Map.empty
      = (Inr (DT 2), set_spec 2 (OneSpec (ex_spec [Replicate] [8, 8])) ex_heap)
   \<and> only_DTs (DT 2)
   \<and> operator_dispatch ex_env add_out_op [DT 0, DT 1] [(''out'', LT 7)] ex_heap
        [''aten.add.out'' \<mapsto> resolving_rule] Map.empty
      = (Inr (LT 7), ex_heap)
   \<and> \<not> only_DTs (LT 7)"
proof -
  have c: "Map.empty (op_key op_call) = (None :: handler option)" for op_call :: local_op
    by simp
  have flags: "\<not> is_inplace (ex_schema op_call as kw False True)"
    "is_out_variant (ex_schema op_call as kw False True)" for op_call as kw
    by (simp_all add: ex_schema_def)
  have outs: "[\<lparr>arg_name = ''out'', is_out = True\<rparr>]
      = filter is_out (arguments (func_schema (ex_schema add_out_op as kw False True)))"
    "[] = filter is_out (arguments (func_schema (ex_schema neg_out_op as kw False True)))"
    for as kw
    by (simp_all add: ex_schema_def add_out_op_def neg_out_op_def ex_op_def)
  have call: "call_local add_out_op (TupleV xs) (DictV kvs) = Inr (LT 99)"
    "call_local neg_out_op (TupleV xs) (DictV kvs) = Inr (LT 99)" for xs kvs
    by (simp_all add: add_out_op_def neg_out_op_def ex_op_def)
  have d1: "[the (map_of [] ''out'')] = map (\<lambda>arg. the (map_of [] (arg_name arg)))
                       [\<lparr>arg_name = ''out'', is_out = True\<rparr>]"
    and d2: "[] = map (\<lambda>arg. the (map_of [] (arg_name arg))) ([] :: Argument list)"
    and d3: "[DT 2] = map (\<lambda>arg. the (map_of [(''out'', DT 2)] (arg_name arg)))
                       [\<lparr>arg_name = ''out'', is_out = True\<rparr>]"
    and d4: "[LT 7] = map (\<lambda>arg. the (map_of [(''out'', LT 7)] (arg_name arg)))
                       [\<lparr>arg_name = ''out'', is_out = True\<rparr>]"
    by simp_all
  note missing = C10_out_variant_lookup[where custom_dispatch_ops = Map.empty,
      OF ex_keys(1) c ex_propagate_out(2) ex_pack(2) ex_pack(5) call(1) flags outs(1) d1]
  note none = C10_out_variant_lookup[where custom_dispatch_ops = Map.empty,
      OF ex_keys(2) c ex_propagate_out(3) ex_pack(3) ex_pack(5) call(2) flags outs(2) d2]
  note found = C10_out_variant_lookup[where custom_dispatch_ops = Map.empty,
      OF ex_keys(1) c ex_propagate_out(1) ex_pack(1) ex_pack(4) call(1) flags outs(1) d3]
  note plain = C10_out_variant_lookup[where custom_dispatch_ops = Map.empty,
      OF ex_keys(1) c ex_propagate_out(4) ex_pack(1) ex_pack(6) call(1) flags outs(1) d4]
  have "\<exists>e. fst (operator_dispatch ex_env add_out_op [DT 0, DT 1, DT 2] [] ex_heap
              [''aten.add.out'' \<mapsto> resolving_rule] Map.empty) = Inl e
        \<and> (e = IndexError \<or> e = AttributeError ''_spec'' \<or> e = KeyError ''out'')"
    using missing[THEN conjunct1] by simp
  moreover have "operator_dispatch ex_env neg_out_op [DT 0] [] ex_heap
        [''aten.neg.out'' \<mapsto> resolving_rule] Map.empty
      = (Inl (AssertionError msg_out), ex_heap)"
    using none[THEN conjunct2, THEN conjunct1] by simp
  moreover have dt: "operator_dispatch ex_env add_out_op [DT 0, DT 1] [(''out'', DT 2)] ex_heap
        [''aten.add.out'' \<mapsto> resolving_rule] Map.empty
      = (Inr (DT 2), set_spec 2 (OneSpec (ex_spec [Replicate] [8, 8])) ex_heap)"
    using found[THEN conjunct2, THEN conjunct2, THEN conjunct1] by simp
  moreover have "only_DTs (DT 2)"
    using found[where r = "DT 2", THEN conjunct2, THEN conjunct2, THEN conjunct2] dt by simp
  moreover have lt: "operator_dispatch ex_env add_out_op [DT 0, DT 1] [(''out'', LT 7)] ex_heap
        [''aten.add.out'' \<mapsto> resolving_rule] Map.empty
      = (Inr (LT 7), ex_heap)"
    using plain[THEN conjunct2, THEN conjunct2, THEN conjunct1] by simp
  moreover have "\<not> only_DTs (LT 7)"
    using plain[where r = "LT 7", THEN conjunct2, THEN conjunct2, THEN conjunct2] lt by simp
  ultimately show ?thesis by blast
qed

section \<open>Properties of the convolution rules\<close>












text \<open>
  Claim C6, as stated, fails at a stride of 0: the input and weight descriptors carry
  four-dimensional tensor metadata, and \<open>convolution_rules\<close> raises a
  \<open>ZeroDivisionError\<close> in the floor division instead of returning an output descriptor.
\<close>

theorem C6_zero_stride_counterexample:
  "args_spec (conv_schema [Replicate] [2, 3, 8, 8] [5, 3, 3, 3] (ListV [IntV 0, IntV 1])
                ones ones)
     = [ex_spec [Replicate] [2, 3, 8, 8], ex_spec [Replicate] [5, 3, 3, 3]]
   \<and> convolution_rules
        (conv_schema [Replicate] [2, 3, 8, 8] [5, 3, 3, 3] (ListV [IntV 0, IntV 1]) ones ones)
     = Inl ZeroDivisionError"
  by code_simp



lemma dim_map_loop_replicate:
  assumes "list_all (\<lambda>p. p = Replicate) ps"
  shows "dim_map_loop i ps r = Inr r"
  using assms by (induction ps arbitrary: i) auto

lemma sums_replicate:
  assumes "fully_replicate sp"
  shows "sums sp = []"
proof -
  have "filter (\<lambda>(i, p). p = Partial) (enumerate k ps) = []"
    if "list_all (\<lambda>p. p = Replicate) ps" for k ps
    using that by (induction ps arbitrary: k) auto
  with assms show ?thesis by (simp add: sums_def fully_replicate_def)
qed

lemma set_shards_unsharded:
  "set_shards i (replicate n (- 1)) ps = Inr ps"
  by (induction n arbitrary: i) auto

lemma from_dim_map_replicate:
  assumes "fully_replicate sp" and "dim_map sp = Inr dm"
      and "from_dim_map m dm (sums sp) tm = Inr out"
  shows "fully_replicate out"
proof -
  from assms(1,2) obtain n where dm: "dm = replicate n (- 1)"
    by (auto simp: dim_map_def fully_replicate_def dim_map_loop_replicate split: option.splits)
  from assms(3) show ?thesis
    by (auto simp: from_dim_map_def dm sums_replicate[OF assms(1)] set_shards_unsharded
          bindE_def fully_replicate_def list_all_length)
qed

lemma from_dim_map_partial:
  assumes "from_dim_map m (replicate n (- 1)) [0] tm = Inr out"
  shows "placements out = (replicate (mesh_ndim m) Replicate)[0 := Partial]
       \<and> mesh_ndim m > 0 \<and> \<not> fully_replicate out"
  using assms
  by (auto simp: from_dim_map_def set_shards_unsharded bindE_def fully_replicate_def
        list_all_length split: if_splits)

lemma bindE_Inr_iff:
  "bindE m f = Inr y \<longleftrightarrow> (\<exists>x. m = Inr x \<and> f x = Inr y)"
  by (cases m) (simp_all add: bindE_def)

lemma as_spec_Inr:
  "as_spec v = Inr sp \<longleftrightarrow> v = Spec sp"
  by (cases v) auto

lemma convolution_rules_replicate:
  assumes "\<forall>sp \<in> set (args_spec op_schema). fully_replicate sp"
      and "convolution_rules op_schema = Inr os"
  shows "\<exists>out. output_spec os = OneSpec out \<and> fully_replicate out"
proof -
  from assms(2) obtain a0 a1 a2 a3 a4 a5 a6 a7 a8 where
    args: "args_schema op_schema = [a0, a1, a2, a3, a4, a5, a6, a7, a8]"
    by (auto simp: convolution_rules_def split: list.splits)
  from assms(2) args obtain isp dm tm out where
    isp: "a0 = Spec isp" and dm: "dim_map isp = Inr dm"
    and out: "from_dim_map (mesh isp) dm (sums isp) tm = Inr out"
    and os: "output_spec os = OneSpec out"
    by (auto simp: convolution_rules_def bindE_Inr_iff as_spec_Inr Let_def)
  from isp args have "isp \<in> set (args_spec op_schema)"
    by (simp add: args_spec_def)
  with assms(1) have "fully_replicate isp" by blast
  from from_dim_map_replicate[OF this dm out] os show ?thesis by blast
qed

lemma convolution_backward_rules_partial:
  assumes "convolution_backward_rules op_schema = Inr os"
  shows "\<exists>gi gw gb. output_spec os = ListSpec [Some gi, Some gw, Some gb]
           \<and> args_schema op_schema ! 1 = Spec gi \<and> gi \<in> set (args_spec op_schema)
           \<and> placements gw = (replicate (mesh_ndim (mesh gi)) Replicate)[0 := Partial]
           \<and> placements gb = (replicate (mesh_ndim (mesh gi)) Replicate)[0 := Partial]
           \<and> \<not> fully_replicate gw \<and> \<not> fully_replicate gb"
proof -
  from assms obtain a0 a1 a2 a3 a4 a5 a6 a7 a8 a9 a10 where
    args: "args_schema op_schema = [a0, a1, a2, a3, a4, a5, a6, a7, a8, a9, a10]"
    by (auto simp: convolution_backward_rules_def bindE_Inr_iff split: list.splits)
  from assms args obtain gi tmw tmb gw gb where
    gi: "a1 = Spec gi"
    and gw: "from_dim_map (mesh gi) [- 1, - 1, - 1, - 1] [0] tmw = Inr gw"
    and gb: "from_dim_map (mesh gi) [- 1] [0] tmb = Inr gb"
    and os: "output_spec os = ListSpec [Some gi, Some gw, Some gb]"
    by (auto simp: convolution_backward_rules_def bindE_Inr_iff as_spec_Inr Let_def)
  from gi args have mem: "gi \<in> set (args_spec op_schema)"
    by (cases a0) (simp_all add: args_spec_def)
  have "replicate 4 (- 1 :: int) = [- 1, - 1, - 1, - 1]"
    and "replicate 1 (- 1 :: int) = [- 1]"
    by (simp_all add: numeral_eq_Suc)
  with gw gb have gw': "from_dim_map (mesh gi) (replicate 4 (- 1)) [0] tmw = Inr gw"
    and gb': "from_dim_map (mesh gi) (replicate 1 (- 1)) [0] tmb = Inr gb"
    by simp_all
  have idx1: "args_schema op_schema ! 1 = Spec gi"
    using args gi by simp
  from from_dim_map_partial[OF gw'] from_dim_map_partial[OF gb'] os idx1 mem
  show ?thesis by blast
qed

text \<open>
  Claim C3, as stated, fails for \<open>convolution_backward_rules\<close>: with every input
  descriptor fully Replicate, the descriptors of the gradients of the weight and of the bias
  carry a \<open>Partial\<close> placement on mesh dimension 0.
\<close>

theorem C3_backward_partial_counterexample:
  "list_all fully_replicate (args_spec (conv_backward_schema [Replicate]))
   \<and> convolution_backward_rules (conv_backward_schema [Replicate]) =
       Inr \<lparr>output_spec = ListSpec
              [Some (ex_spec [Replicate] [2, 3, 8, 8]),
               Some (ex_spec [Partial] [5, 3, 3, 3]),
               Some \<lparr>mesh = \<lparr>mesh_dims = [4]\<rparr>, placements = [Partial],
                     tensor_meta = Some \<lparr>tm_shape = [5], tm_stride = [1],
                                         tm_dtype = ''float32''\<rparr>\<rparr>],
            schema_suggestions = None, failed_reason = None\<rparr>"
  by code_simp

text \<open>
  Claim C3, amended: if every input descriptor of the schema is fully Replicate, then the
  output descriptor returned by \<open>convolution_rules\<close> is fully Replicate. Whenever
  \<open>convolution_backward_rules\<close> returns, whatever the placements of the input descriptors
  are, it returns three descriptors: the first (the gradient of the input) is the input
  descriptor itself, the second argument of the schema, and so it is fully Replicate if every
  input descriptor is; the second and third (the gradients of the weight and of the bias)
  are Replicate on every mesh dimension except for a \<open>Partial\<close> placement on mesh
  dimension 0, and so they are never fully Replicate.
\<close>

theorem C3_replicate_passthrough:
  "((\<forall>sp \<in> set (args_spec op_schema). fully_replicate sp)
      \<and> convolution_rules op_schema = Inr os \<longrightarrow>
        (\<exists>out. output_spec os = OneSpec out \<and> fully_replicate out))
   \<and> (convolution_backward_rules op_schema' = Inr os' \<longrightarrow>
        (\<exists>gi gw gb. output_spec os' = ListSpec [Some gi, Some gw, Some gb]
           \<and> args_schema op_schema' ! 1 = Spec gi
           \<and> ((\<forall>sp \<in> set (args_spec op_schema'). fully_replicate sp) \<longrightarrow> fully_replicate gi)
           \<and> placements gw = (replicate (mesh_ndim (mesh gi)) Replicate)[0 := Partial]
           \<and> placements gb = (replicate (mesh_ndim (mesh gi)) Replicate)[0 := Partial]
           \<and> \<not> fully_replicate gw \<and> \<not> fully_replicate gb))"
proof (intro conjI impI)
  assume "(\<forall>sp \<in> set (args_spec op_schema). fully_replicate sp)
      \<and> convolution_rules op_schema = Inr os"
  then show "\<exists>out. output_spec os = OneSpec out \<and> fully_replicate out"
    using convolution_rules_replicate[of op_schema os] by blast
next
  assume "convolution_backward_rules op_schema' = Inr os'"
  from convolution_backward_rules_partial[OF this]
  show "\<exists>gi gw gb. output_spec os' = ListSpec [Some gi, Some gw, Some gb]
           \<and> args_schema op_schema' ! 1 = Spec gi
           \<and> ((\<forall>sp \<in> set (args_spec op_schema'). fully_replicate sp) \<longrightarrow> fully_replicate gi)
           \<and> placements gw = (replicate (mesh_ndim (mesh gi)) Replicate)[0 := Partial]
           \<and> placements gb = (replicate (mesh_ndim (mesh gi)) Replicate)[0 := Partial]
           \<and> \<not> fully_replicate gw \<and> \<not> fully_replicate gb"
    by blast
qed

lemma ex_conv_rules:
  "convolution_rules (same_conv_schema [Replicate]) =
     Inr \<lparr>output_spec = OneSpec
            \<lparr>mesh = \<lparr>mesh_dims = [4]\<rparr>, placements = [Replicate],
             tensor_meta = Some \<lparr>tm_shape = [2, 5, 8, 8], tm_stride = [320, 64, 8, 1],
                                 tm_dtype = ''float32''\<rparr>\<rparr>,
          schema_suggestions = None, failed_reason = None\<rparr>"
  by code_simp

lemma ex_conv_backward_rules:
  "convolution_backward_rules (conv_backward_schema [Shard 3]) =
       Inr \<lparr>output_spec = ListSpec
              [Some (ex_spec [Shard 3] [2, 3, 8, 8]),
               Some (ex_spec [Partial] [5, 3, 3, 3]),
               Some \<lparr>mesh = \<lparr>mesh_dims = [4]\<rparr>, placements = [Partial],
                     tensor_meta = Some \<lparr>tm_shape = [5], tm_stride = [1],
                                         tm_dtype = ''float32''\<rparr>\<rparr>],
            schema_suggestions = None, failed_reason = None\<rparr>"
  by code_simp

lemma ex_all_replicate:
  "\<forall>sp \<in> set (args_spec (same_conv_schema [Replicate])). fully_replicate sp"
  by (simp add: args_spec_def same_conv_schema_def conv_schema_def ones_def
        fully_replicate_def ex_spec_def)

theorem C3_replicate_passthrough_witness:
  "(\<exists>os out. convolution_rules (same_conv_schema [Replicate]) = Inr os
       \<and> output_spec os = OneSpec out \<and> fully_replicate out)
   \<and> (\<exists>os' gi gw gb. convolution_backward_rules (conv_backward_schema [Shard 3]) = Inr os'
       \<and> output_spec os' = ListSpec [Some gi, Some gw, Some gb]
       \<and> args_schema (conv_backward_schema [Shard 3]) ! 1 = Spec gi
       \<and> placements gw = (replicate (mesh_ndim (mesh gi)) Replicate)[0 := Partial]
       \<and> placements gb = (replicate (mesh_ndim (mesh gi)) Replicate)[0 := Partial]
       \<and> \<not> fully_replicate gw \<and> \<not> fully_replicate gb)"
proof -
  note inst = C3_replicate_passthrough[where op_schema = "same_conv_schema [Replicate]"
      and op_schema' = "conv_backward_schema [Shard 3]"]
  from inst[THEN conjunct1, THEN mp, OF conjI[OF ex_all_replicate ex_conv_rules]]
       ex_conv_rules
  have fwd: "\<exists>os out. convolution_rules (same_conv_schema [Replicate]) = Inr os
       \<and> output_spec os = OneSpec out \<and> fully_replicate out"
    by blast
  from inst[THEN conjunct2, THEN mp, OF ex_conv_backward_rules] ex_conv_backward_rules
  have bwd: "\<exists>os' gi gw gb. convolution_backward_rules (conv_backward_schema [Shard 3]) = Inr os'
       \<and> output_spec os' = ListSpec [Some gi, Some gw, Some gb]
       \<and> args_schema (conv_backward_schema [Shard 3]) ! 1 = Spec gi
       \<and> placements gw = (replicate (mesh_ndim (mesh gi)) Replicate)[0 := Partial]
       \<and> placements gb = (replicate (mesh_ndim (mesh gi)) Replicate)[0 := Partial]
       \<and> \<not> fully_replicate gw \<and> \<not> fully_replicate gb"
    by blast
  from fwd bwd show ?thesis by (rule conjI)
qed

end
